theory Spec2Isabelle
  imports Complex_Main
begin

section \<open>Data model\<close>

text \<open>
  The enums and tables of \<^verbatim>\<open>prisma/migrations/20251210152145_reinit/migration.sql\<close>.
  Ids are the TEXT keys of the tables. A table is the list of its rows in insertion order,
  so the store-maintained columns \<^verbatim>\<open>createdAt\<close> and \<^verbatim>\<open>updatedAt\<close> are not
  fields: a later row is a more recent one. A timestamp is a natural number.
\<close>

subsection \<open>Numbers\<close>

text \<open>
  A JavaScript number is an IEEE 754 double: a finite double is the rational it stands for,
  and there are the two infinities. NaN does not arise: a JSON text cannot carry it, and the
  controllers add to and subtract from a finite stock only. The DOUBLE PRECISION columns
  hold finite doubles, so a stored number is a rational.
\<close>

datatype number = Finite rat | PosInfinity | NegInfinity

text \<open>Rounding to the nearest integer, a tie to the even one.\<close>

definition roundHalfEven :: "rat \<Rightarrow> int" where
  "roundHalfEven y =
     (let f = \<lfloor>y\<rfloor>; r = y - of_int f
      in if r < 1 / 2 then f else if 1 / 2 < r then f + 1 else if even f then f else f + 1)"

text \<open>
  The binary exponent of a magnitude \<open>a\<close>: the largest \<open>e\<close> from -1022 to 1023 with
  \<open>2 powi e \<le> a\<close>, and -1022 below the normal range. \<open>exponentFrom k\<close> searches
  downwards from \<open>k - 1022\<close>.
\<close>

fun exponentFrom :: "nat \<Rightarrow> rat \<Rightarrow> int" where
  "exponentFrom 0 a = - 1022"
| "exponentFrom (Suc k) a =
     (if 2 powi (int (Suc k) - 1022) \<le> a then int (Suc k) - 1022 else exponentFrom k a)"

definition exponent :: "rat \<Rightarrow> int" where
  "exponent a = exponentFrom 2045 a"

text \<open>
  The double nearest to a rational, a tie to the even significand: the magnitude is rounded
  to a multiple of the spacing \<open>2 powi (e - 52)\<close> of the doubles at its exponent \<open>e\<close>,
  and a result of \<open>2 powi 1024\<close> or more is an infinity. This is the result of a
  JavaScript addition or subtraction of two finite doubles, applied to their exact sum or
  difference, and of reading a decimal number of a JSON text.
\<close>

definition roundToDouble :: "rat \<Rightarrow> number" where
  "roundToDouble x =
     (let a = \<bar>x\<bar>;
          u = 2 powi (exponent a - 52);
          r = u * of_int (roundHalfEven (a / u))
      in if 2 powi 1024 \<le> r then (if 0 < x then PosInfinity else NegInfinity)
         else Finite (if 0 < x then r else - r))"

text \<open>
  The operators \<^verbatim>\<open>+\<close>, \<^verbatim>\<open>-\<close> and \<^verbatim>\<open><\<close> of \<open>createTransaction\<close>: the left operand is
  the stock read from the store, the right one the quantity of the body.
\<close>

definition js_add :: "rat \<Rightarrow> number \<Rightarrow> number" where
  "js_add a q =
     (case q of Finite r \<Rightarrow> roundToDouble (a + r)
      | PosInfinity \<Rightarrow> PosInfinity | NegInfinity \<Rightarrow> NegInfinity)"

definition js_sub :: "rat \<Rightarrow> number \<Rightarrow> number" where
  "js_sub a q =
     (case q of Finite r \<Rightarrow> roundToDouble (a - r)
      | PosInfinity \<Rightarrow> NegInfinity | NegInfinity \<Rightarrow> PosInfinity)"

definition js_less :: "rat \<Rightarrow> number \<Rightarrow> bool" where
  "js_less a q = (case q of Finite r \<Rightarrow> a < r | PosInfinity \<Rightarrow> True | NegInfinity \<Rightarrow> False)"

subsection \<open>Tables\<close>

datatype TenantPlan = FREE | PRO

datatype UserRole = ADMIN | USER

datatype TransactionType = IN | OUT

record tenant =
  tenant_id :: string
  tenant_name :: string
  plan :: TenantPlan

record user =
  user_id :: string
  user_tenantId :: string
  email :: string
  role :: UserRole

record material =
  material_id :: string
  material_tenantId :: string
  name :: string
  unit :: string
  currentStock :: rat
  deletedAt :: "nat option"

record transaction =
  transaction_tenantId :: string
  materialId :: string
  type :: TransactionType
  quantity :: rat
  preTransactionStock :: rat

record db =
  tenants :: "tenant list"
  users :: "user list"
  materials :: "material list"
  transactions :: "transaction list"

section \<open>Requests and responses\<close>

text \<open>
  A field of a JSON request body: absent, a string, a number, or any other value. A number
  is given by the decimal value written in the text of the body, which
  \<^verbatim>\<open>bodyParser.json()\<close> reads into a double.
\<close>

datatype json = JUndefined | JString string | JNumber rat | JOther

record materialBody =
  body_name :: json
  body_unit :: json

record transactionBody =
  body_type :: json
  body_quantity :: json

text \<open>
  One constructor for each error response of the controllers and the middleware. The
  not-found response carries its message, the insufficient-stock response the three values
  its message is built from: the stock read, the unit and the requested quantity.
\<close>

datatype error =
    ValidationError
  | AuthenticationRequired
  | TenantNotFound
  | UserAccessDenied
  | AuthorizationRequired
  | PlanLimitExceeded
  | Conflict
  | NotFound string
  | InsufficientStock rat string number
  | InternalServerError

fun status :: "error \<Rightarrow> nat" where
  "status ValidationError = 400"
| "status AuthenticationRequired = 401"
| "status TenantNotFound = 404"
| "status UserAccessDenied = 403"
| "status AuthorizationRequired = 403"
| "status PlanLimitExceeded = 403"
| "status Conflict = 409"
| "status (NotFound msg) = 404"
| "status (InsufficientStock pre u q) = 400"
| "status InternalServerError = 500"

text \<open>
  The success responses: the created material; the material with its recent transactions;
  the id and new stock of the updated material with the created transaction; the name, id
  and \<^verbatim>\<open>deletedAt\<close> of the soft-deleted material.
\<close>

datatype reply =
    MaterialCreated material
  | MaterialWithTransactions material "transaction list"
  | TransactionCreated string rat transaction
  | MaterialSoftDeleted string string "nat option"

type_synonym response = "error + reply"

section \<open>Input validation\<close>

text \<open>\<^verbatim>\<open>createMaterialSchema\<close>: name a string of 1 to 100 characters, unit of 1 to 20.\<close>

definition createMaterialSchema :: "materialBody \<Rightarrow> (string \<times> string) option" where
  "createMaterialSchema body =
     (case (body_name body, body_unit body) of
        (JString n, JString u) \<Rightarrow>
          if 1 \<le> length n \<and> length n \<le> 100 \<and> 1 \<le> length u \<and> length u \<le> 20
          then Some (n, u) else None
      | _ \<Rightarrow> None)"

text \<open>\<^verbatim>\<open>z.nativeEnum(TransactionType)\<close>: the strings IN and OUT.\<close>

definition nativeEnum_TransactionType :: "json \<Rightarrow> TransactionType option" where
  "nativeEnum_TransactionType j =
     (case j of
        JString s \<Rightarrow> if s = ''IN'' then Some IN else if s = ''OUT'' then Some OUT else None
      | _ \<Rightarrow> None)"

text \<open>\<^verbatim>\<open>z.number().positive()\<close>: a number above 0; the positive infinity is one.\<close>

definition positive :: "number \<Rightarrow> bool" where
  "positive q = (case q of Finite r \<Rightarrow> 0 < r | PosInfinity \<Rightarrow> True | NegInfinity \<Rightarrow> False)"

text \<open>
  \<^verbatim>\<open>createTransactionSchema\<close>: a type of the enum and a positive number. The quantity it
  returns is the double that the body's number was read into.
\<close>

definition createTransactionSchema ::
  "transactionBody \<Rightarrow> (TransactionType \<times> number) option" where
  "createTransactionSchema body =
     (case (nativeEnum_TransactionType (body_type body), body_quantity body) of
        (Some ty, JNumber d) \<Rightarrow>
          (let q = roundToDouble d in if positive q then Some (ty, q) else None)
      | _ \<Rightarrow> None)"

section \<open>The store operations the controllers call\<close>

text \<open>\<^verbatim>\<open>prisma.material.count({where: {tenantId, deletedAt: null}})\<close>\<close>

definition material_count :: "db \<Rightarrow> string \<Rightarrow> nat" where
  "material_count s tid =
     length (filter (\<lambda>m. material_tenantId m = tid \<and> deletedAt m = None) (materials s))"

text \<open>\<^verbatim>\<open>prisma.material.findFirst({where: {id, tenantId, deletedAt: null}})\<close>\<close>

definition material_findFirst :: "db \<Rightarrow> string \<Rightarrow> string \<Rightarrow> material option" where
  "material_findFirst s mid tid =
     find (\<lambda>m. material_id m = mid \<and> material_tenantId m = tid \<and> deletedAt m = None)
       (materials s)"

text \<open>
  \<^verbatim>\<open>prisma.material.create\<close>. The insert is refused (error P2002) when it breaks the
  primary key on the id or the unique index on tenant and name; both cover the
  soft-deleted rows too. \<open>None\<close> is the refusal.
\<close>

definition material_create :: "db \<Rightarrow> material \<Rightarrow> (material \<times> db) option" where
  "material_create s m =
     (if list_ex (\<lambda>x. material_id x = material_id m \<or>
                      (material_tenantId x = material_tenantId m \<and> name x = name m))
           (materials s)
      then None
      else Some (m, s\<lparr>materials := materials s @ [m]\<rparr>))"

text \<open>
  \<^verbatim>\<open>prisma.material.update({where: {id}, data})\<close>: the row with the id is changed and
  returned; \<open>None\<close> is the error of an update that finds no row.
\<close>

definition material_update ::
  "db \<Rightarrow> string \<Rightarrow> (material \<Rightarrow> material) \<Rightarrow> (material \<times> db) option" where
  "material_update s mid f =
     (case find (\<lambda>m. material_id m = mid) (materials s) of
        None \<Rightarrow> None
      | Some m \<Rightarrow>
          Some (f m, s\<lparr>materials := map (\<lambda>x. if material_id x = mid then f x else x)
                                      (materials s)\<rparr>))"

text \<open>\<^verbatim>\<open>prisma.transaction.create\<close>\<close>

definition transaction_create :: "db \<Rightarrow> transaction \<Rightarrow> transaction \<times> db" where
  "transaction_create s t = (t, s\<lparr>transactions := transactions s @ [t]\<rparr>)"

section \<open>Controllers\<close>

text \<open>
  \<^verbatim>\<open>src/controllers/material.controller.js\<close>. A controller takes \<^verbatim>\<open>req.tenant\<close>, the
  request's parameters and body and the store, and returns the response with the store
  after the request. The id of a new material is generated by the store's client: it is an
  argument of \<open>createMaterial\<close>, as the time of the deletion is of \<open>softDeleteMaterial\<close>.
\<close>

definition MAX_FREE_MATERIALS :: nat where
  "MAX_FREE_MATERIALS = 5"

definition createMaterial :: "tenant \<Rightarrow> materialBody \<Rightarrow> string \<Rightarrow> db \<Rightarrow> response \<times> db" where
  "createMaterial reqTenant body newId s =
     (case createMaterialSchema body of
        None \<Rightarrow> (Inl ValidationError, s)
      | Some (n, u) \<Rightarrow>
          if plan reqTenant = FREE \<and>
             MAX_FREE_MATERIALS \<le> material_count s (tenant_id reqTenant)
          then (Inl PlanLimitExceeded, s)
          else
            (case material_create s
                    \<lparr>material_id = newId, material_tenantId = tenant_id reqTenant,
                     name = n, unit = u, currentStock = 0, deletedAt = None\<rparr> of
               None \<Rightarrow> (Inl Conflict, s)
             | Some (newMaterial, s') \<Rightarrow> (Inr (MaterialCreated newMaterial), s')))"

text \<open>
  The transactions included by \<open>getMaterialById\<close>: those of the material, most recent
  first, at most ten.
\<close>

definition history :: "db \<Rightarrow> string \<Rightarrow> transaction list" where
  "history s mid = filter (\<lambda>t. materialId t = mid) (transactions s)"

definition getMaterialById :: "tenant \<Rightarrow> string \<Rightarrow> db \<Rightarrow> response" where
  "getMaterialById reqTenant mid s =
     (case material_findFirst s mid (tenant_id reqTenant) of
        None \<Rightarrow> Inl (NotFound ''Material not found or does not belong to your tenant.'')
      | Some m \<Rightarrow> Inr (MaterialWithTransactions m (take 10 (rev (history s mid)))))"

text \<open>
  \<open>createTransaction\<close> in its two parts. The first validates the body, reads the material
  and checks the stock; it returns what the batch is to write and writes nothing. The
  second is the \<^verbatim>\<open>prisma.$transaction\<close> batch of the update and the insert, which takes
  effect as a whole or not at all, and the 201 response. The store refuses a number that
  is not finite: the batch fails and the \<^verbatim>\<open>catch\<close> answers 500.
\<close>

record pending =
  pending_tenantId :: string
  pending_type :: TransactionType
  pending_quantity :: number
  pending_preTransactionStock :: rat
  pending_newStock :: number

definition createTransaction_read ::
  "tenant \<Rightarrow> string \<Rightarrow> transactionBody \<Rightarrow> db \<Rightarrow> error + pending" where
  "createTransaction_read reqTenant mid body s =
     (case createTransactionSchema body of
        None \<Rightarrow> Inl ValidationError
      | Some (ty, q) \<Rightarrow>
          (case material_findFirst s mid (tenant_id reqTenant) of
             None \<Rightarrow> Inl (NotFound ''Material not found or does not belong to your tenant.'')
           | Some m \<Rightarrow>
               (let pre = currentStock m;
                    batch = (\<lambda>newStock.
                      \<lparr>pending_tenantId = tenant_id reqTenant, pending_type = ty,
                       pending_quantity = q, pending_preTransactionStock = pre,
                       pending_newStock = newStock\<rparr>)
                in if ty = IN then Inr (batch (js_add pre q))
                   else if js_less pre q then Inl (InsufficientStock pre (unit m) q)
                   else Inr (batch (js_sub pre q)))))"

definition createTransaction_write :: "string \<Rightarrow> pending \<Rightarrow> db \<Rightarrow> response \<times> db" where
  "createTransaction_write mid w s =
     (case (pending_newStock w, pending_quantity w) of
        (Finite newStock, Finite q) \<Rightarrow>
          (case material_update s mid (\<lambda>m. m\<lparr>currentStock := newStock\<rparr>) of
             None \<Rightarrow> (Inl InternalServerError, s)
           | Some (updatedMaterial, s1) \<Rightarrow>
               (case transaction_create s1
                       \<lparr>transaction_tenantId = pending_tenantId w, materialId = mid,
                        type = pending_type w, quantity = q,
                        preTransactionStock = pending_preTransactionStock w\<rparr> of
                  (newTransaction, s2) \<Rightarrow>
                    (Inr (TransactionCreated (material_id updatedMaterial)
                            (currentStock updatedMaterial) newTransaction), s2)))
      | _ \<Rightarrow> (Inl InternalServerError, s))"

definition createTransaction_finish ::
  "string \<Rightarrow> error + pending \<Rightarrow> db \<Rightarrow> response \<times> db" where
  "createTransaction_finish mid r s =
     (case r of Inl e \<Rightarrow> (Inl e, s) | Inr w \<Rightarrow> createTransaction_write mid w s)"

text \<open>One request served alone: the write follows the read on the same store.\<close>

definition createTransaction ::
  "tenant \<Rightarrow> string \<Rightarrow> transactionBody \<Rightarrow> db \<Rightarrow> response \<times> db" where
  "createTransaction reqTenant mid body s =
     createTransaction_finish mid (createTransaction_read reqTenant mid body s) s"

definition softDeleteMaterial :: "tenant \<Rightarrow> string \<Rightarrow> nat \<Rightarrow> db \<Rightarrow> response \<times> db" where
  "softDeleteMaterial reqTenant mid now s =
     (case material_findFirst s mid (tenant_id reqTenant) of
        None \<Rightarrow> (Inl (NotFound ''Material not found or already deleted.''), s)
      | Some m \<Rightarrow>
          (case material_update s mid (\<lambda>x. x\<lparr>deletedAt := Some now\<rparr>) of
             None \<Rightarrow> (Inl InternalServerError, s)
           | Some (softDeletedMaterial, s') \<Rightarrow>
               (Inr (MaterialSoftDeleted (name softDeletedMaterial)
                       (material_id softDeletedMaterial) (deletedAt softDeletedMaterial)),
                s')))"

section \<open>Middleware and routes\<close>

text \<open>
  \<^verbatim>\<open>src/middleware/tenant-auth.js\<close> and \<^verbatim>\<open>src/routes.js\<close>. A header is absent or a string; an
  empty string is falsy, as an absent header is.
\<close>

record headers =
  header_tenant_id :: "string option"
  header_user_id :: "string option"

definition tenantAuthMiddleware :: "headers \<Rightarrow> db \<Rightarrow> error + (tenant \<times> user)" where
  "tenantAuthMiddleware hs s =
     (case (header_tenant_id hs, header_user_id hs) of
        (Some tid, Some uid) \<Rightarrow>
          if tid = [] \<or> uid = [] then Inl AuthenticationRequired
          else
            (case find (\<lambda>t. tenant_id t = tid) (tenants s) of
               None \<Rightarrow> Inl TenantNotFound
             | Some ten \<Rightarrow>
                 (case find (\<lambda>u. user_id u = uid \<and> user_tenantId u = tid) (users s) of
                    None \<Rightarrow> Inl UserAccessDenied
                  | Some usr \<Rightarrow> Inr (ten, usr)))
      | _ \<Rightarrow> Inl AuthenticationRequired)"

text \<open>\<open>None\<close> is the call of \<^verbatim>\<open>next()\<close>.\<close>

definition roleCheckMiddleware :: "UserRole \<Rightarrow> user \<Rightarrow> error option" where
  "roleCheckMiddleware requiredRole reqUser =
     (if requiredRole = ADMIN \<and> role reqUser \<noteq> ADMIN then Some AuthorizationRequired
      else None)"

text \<open>
  The four routes of the material controllers that look a material up or write: each
  request carries what its controller takes besides \<^verbatim>\<open>req.tenant\<close>.
\<close>

datatype request =
    POST_materials materialBody string
  | GET_materials_id string
  | DELETE_materials_id string nat
  | POST_materials_id_transactions string transactionBody

definition router :: "headers \<Rightarrow> request \<Rightarrow> db \<Rightarrow> response \<times> db" where
  "router hs rq s =
     (case tenantAuthMiddleware hs s of
        Inl e \<Rightarrow> (Inl e, s)
      | Inr (reqTenant, reqUser) \<Rightarrow>
          (case rq of
             POST_materials body newId \<Rightarrow>
               (case roleCheckMiddleware ADMIN reqUser of
                  Some e \<Rightarrow> (Inl e, s)
                | None \<Rightarrow> createMaterial reqTenant body newId s)
           | GET_materials_id mid \<Rightarrow> (getMaterialById reqTenant mid s, s)
           | DELETE_materials_id mid now \<Rightarrow>
               (case roleCheckMiddleware ADMIN reqUser of
                  Some e \<Rightarrow> (Inl e, s)
                | None \<Rightarrow> softDeleteMaterial reqTenant mid now s)
           | POST_materials_id_transactions mid body \<Rightarrow>
               createTransaction reqTenant mid body s))"

section \<open>Runs\<close>

text \<open>
  A sequence of operations, each served to its end before the next starts, from a store
  with no material and no transaction.
\<close>

datatype operation =
    CreateMaterial tenant materialBody string
  | CreateTransaction tenant string transactionBody
  | SoftDeleteMaterial tenant string nat

fun exec :: "operation \<Rightarrow> db \<Rightarrow> db" where
  "exec (CreateMaterial reqTenant body newId) s = snd (createMaterial reqTenant body newId s)"
| "exec (CreateTransaction reqTenant mid body) s = snd (createTransaction reqTenant mid body s)"
| "exec (SoftDeleteMaterial reqTenant mid now) s = snd (softDeleteMaterial reqTenant mid now s)"

fun run :: "operation list \<Rightarrow> db \<Rightarrow> db" where
  "run [] s = s"
| "run (op # ops) s = run ops (exec op s)"

definition initDb :: "tenant list \<Rightarrow> user list \<Rightarrow> db" where
  "initDb ts us = \<lparr>tenants = ts, users = us, materials = [], transactions = []\<rparr>"

text \<open>
  The ledger of a material: the signed quantities of its transactions, summed exactly.
\<close>

definition signedQuantity :: "transaction \<Rightarrow> rat" where
  "signedQuantity t = (case type t of IN \<Rightarrow> quantity t | OUT \<Rightarrow> - quantity t)"

definition ledgerSum :: "db \<Rightarrow> string \<Rightarrow> rat" where
  "ledgerSum s mid = sum_list (map signedQuantity (history s mid))"

text \<open>
  Two requests on one material served at the same time, in the order the awaits of
  \<open>createTransaction\<close> allow: both reads are answered before either batch is sent. The
  result is the two responses and the store after both.
\<close>

definition readsBeforeWrites ::
  "tenant \<Rightarrow> string \<Rightarrow> transactionBody \<Rightarrow> transactionBody \<Rightarrow> db \<Rightarrow>
     (response \<times> response) \<times> db" where
  "readsBeforeWrites reqTenant mid body1 body2 s =
     (let r1 = createTransaction_read reqTenant mid body1 s;
          r2 = createTransaction_read reqTenant mid body2 s
      in case createTransaction_finish mid r1 s of
           (a1, s1) \<Rightarrow>
             (case createTransaction_finish mid r2 s1 of
                (a2, s2) \<Rightarrow> ((a1, a2), s2)))"

section \<open>Properties of a store\<close>

text \<open>
  The foreign key of the transaction table: every transaction belongs to a material of the
  store.
\<close>

definition referential :: "db \<Rightarrow> bool" where
  "referential s \<longleftrightarrow>
     (\<forall>t \<in> set (transactions s). materialId t \<in> material_id ` set (materials s))"

text \<open>
  The ledger of a material summed as the controller sums: from 0, in the order of the
  history, each signed quantity added in double arithmetic.
\<close>

definition addSigned :: "number \<Rightarrow> transaction \<Rightarrow> number" where
  "addSigned acc t =
     (case acc of Finite a \<Rightarrow> roundToDouble (a + signedQuantity t)
      | PosInfinity \<Rightarrow> PosInfinity | NegInfinity \<Rightarrow> NegInfinity)"

definition ledgerRounded :: "db \<Rightarrow> string \<Rightarrow> number" where
  "ledgerRounded s mid = foldl addSigned (Finite 0) (history s mid)"

text \<open>Every material's stock is that sum of its ledger, and is not negative.\<close>

definition stockIsLedger :: "db \<Rightarrow> bool" where
  "stockIsLedger s =
     list_all (\<lambda>m. Finite (currentStock m) = ledgerRounded s (material_id m) \<and>
                    0 \<le> currentStock m)
       (materials s)"

section \<open>Example data\<close>

text \<open>
  A FREE tenant with an administrator and a plain user, and a PRO tenant; the body of a
  material and of a movement; the store after the material M was created and 100 kg were
  booked in, and after \<open>2 ^ 53\<close> kg were; the store of a tenant with five materials, before
  and after the fifth is soft-deleted.
\<close>

definition acme :: tenant where
  "acme = \<lparr>tenant_id = ''T'', tenant_name = ''Acme'', plan = FREE\<rparr>"

definition admin :: user where
  "admin = \<lparr>user_id = ''U1'', user_tenantId = ''T'', email = ''admin@acme.test'', role = ADMIN\<rparr>"

definition clerk :: user where
  "clerk = \<lparr>user_id = ''U2'', user_tenantId = ''T'', email = ''clerk@acme.test'', role = USER\<rparr>"

definition steel :: materialBody where
  "steel = \<lparr>body_name = JString ''steel'', body_unit = JString ''kg''\<rparr>"

definition movement :: "string \<Rightarrow> rat \<Rightarrow> transactionBody" where
  "movement ty q = \<lparr>body_type = JString ty, body_quantity = JNumber q\<rparr>"

definition stocked :: db where
  "stocked =
     run [CreateMaterial acme steel ''M'', CreateTransaction acme ''M'' (movement ''IN'' 100)]
       (initDb [acme] [admin, clerk])"

definition bigStock :: db where
  "bigStock =
     run [CreateMaterial acme steel ''M'',
          CreateTransaction acme ''M'' (movement ''IN'' 9007199254740992)]
       (initDb [acme] [admin, clerk])"

definition globex :: tenant where
  "globex = \<lparr>tenant_id = ''G'', tenant_name = ''Globex'', plan = PRO\<rparr>"

definition materialNamed :: "string \<Rightarrow> materialBody" where
  "materialNamed n = \<lparr>body_name = JString n, body_unit = JString ''kg''\<rparr>"

definition full :: db where
  "full =
     run [CreateMaterial acme (materialNamed ''a'') ''M1'',
          CreateMaterial acme (materialNamed ''b'') ''M2'',
          CreateMaterial acme (materialNamed ''c'') ''M3'',
          CreateMaterial acme (materialNamed ''d'') ''M4'',
          CreateMaterial acme (materialNamed ''e'') ''M5'']
       (initDb [acme] [admin, clerk])"

definition freed :: db where
  "freed = run [SoftDeleteMaterial acme ''M5'' 1] full"

section \<open>Facts about rounding\<close>

lemma roundHalfEven_int [simp]: "roundHalfEven (of_int k) = k"
  by (simp add: roundHalfEven_def)

lemma roundHalfEven_ge_floor: "\<lfloor>y\<rfloor> \<le> roundHalfEven y"
  by (simp add: roundHalfEven_def Let_def)

lemma roundHalfEven_ge:
  assumes "of_int k \<le> y"
  shows "k \<le> roundHalfEven y"
proof -
  from assms have "k \<le> \<lfloor>y\<rfloor>" by (simp only: le_floor_iff)
  with roundHalfEven_ge_floor [of y] show ?thesis by linarith
qed

lemma roundHalfEven_nonneg: "0 \<le> y \<Longrightarrow> 0 \<le> roundHalfEven y"
  using roundHalfEven_ge_floor [of y] by (simp add: order_trans [of 0 "\<lfloor>y\<rfloor>"])

lemma exponentFrom_range: "- 1022 \<le> exponentFrom k a \<and> exponentFrom k a \<le> int k - 1022"
  by (induction k) auto

lemma exponentFrom_lower: "exponentFrom k a = - 1022 \<or> 2 powi (exponentFrom k a) \<le> a"
  by (induction k) auto

lemma exponentFrom_unique:
  assumes "- 1022 \<le> e" and "e \<le> int k - 1022" and "2 powi e \<le> a" and "a < 2 powi (e + 1)"
  shows "exponentFrom k a = e"
  using assms(2)
proof (induction k)
  case 0
  with assms(1) show ?case by simp
next
  case (Suc k)
  show ?case
  proof (cases "2 powi (int (Suc k) - 1022) \<le> a")
    case True
    with assms(4) have "(2::rat) powi (int (Suc k) - 1022) < 2 powi (e + 1)" by simp
    then have "int (Suc k) - 1022 < e + 1"
      using power_int_increasing [of "e + 1" "int (Suc k) - 1022" "2::rat"]
      by (cases "int (Suc k) - 1022 < e + 1") auto
    with Suc.prems True show ?thesis by simp
  next
    case False
    with assms(3) have "e \<noteq> int (Suc k) - 1022" by auto
    with Suc.prems have "e \<le> int k - 1022" by simp
    with Suc.IH False show ?thesis by simp
  qed
qed

lemma exponent_lower: "exponent a = - 1022 \<or> 2 powi (exponent a) \<le> a"
  unfolding exponent_def by (rule exponentFrom_lower)

lemma exponent_range: "- 1022 \<le> exponent a \<and> exponent a \<le> 1023"
  using exponentFrom_range [of 2045 a] by (simp add: exponent_def)

lemma exponent_unique:
  assumes "- 1022 \<le> e" and "e \<le> 1023" and "2 powi e \<le> a" and "a < 2 powi (e + 1)"
  shows "exponent a = e"
  unfolding exponent_def by (rule exponentFrom_unique) (use assms in simp_all)

lemma roundToDouble_nonneg:
  assumes "0 \<le> x" and "roundToDouble x = Finite v"
  shows "0 \<le> v"
proof -
  define u :: rat where "u = 2 powi (exponent \<bar>x\<bar> - 52)"
  have u: "0 < u" by (simp add: u_def)
  with assms(1) have "0 \<le> \<bar>x\<bar> / u" by simp
  then have "0 \<le> roundHalfEven (\<bar>x\<bar> / u)" by (rule roundHalfEven_nonneg)
  with u have r: "0 \<le> u * of_int (roundHalfEven (\<bar>x\<bar> / u))" by simp
  from assms(2) have "v = u * of_int (roundHalfEven (\<bar>x\<bar> / u)) \<or>
      v = - (u * of_int (roundHalfEven (\<bar>x\<bar> / u))) \<and> \<not> 0 < x"
    by (auto simp: roundToDouble_def Let_def u_def split: if_splits)
  then show ?thesis
  proof
    assume "v = u * of_int (roundHalfEven (\<bar>x\<bar> / u))"
    with r show ?thesis by simp
  next
    assume a: "v = - (u * of_int (roundHalfEven (\<bar>x\<bar> / u))) \<and> \<not> 0 < x"
    with assms(1) have "x = 0" by simp
    with a show ?thesis by (simp add: roundHalfEven_def)
  qed
qed

lemma roundToDouble_zero [simp]: "roundToDouble 0 = Finite 0"
  by (simp add: roundToDouble_def Let_def roundHalfEven_def)

lemma roundToDouble_integer:
  assumes "x \<in> \<int>" and "\<bar>x\<bar> < 2 ^ 53"
  shows "roundToDouble x = Finite x"
proof -
  from assms(1) obtain n :: int where x: "x = of_int n" by (auto elim: Ints_cases)
  define e where "e = exponent \<bar>x\<bar>"
  define u :: rat where "u = 2 powi (e - 52)"
  have "e \<le> 52"
  proof (rule ccontr)
    assume "\<not> e \<le> 52"
    then have big: "53 \<le> e" by simp
    with exponent_lower [of "\<bar>x\<bar>"] have "2 powi e \<le> \<bar>x\<bar>" by (auto simp: e_def)
    moreover from big have "(2::rat) powi 53 \<le> 2 powi e" by (intro power_int_increasing) simp_all
    ultimately show False using assms(2) by simp
  qed
  then have "1 / u = 2 ^ nat (52 - e)"
    by (simp add: u_def power_int_def field_simps)
  then have "\<bar>x\<bar> / u = of_int (\<bar>n\<bar> * 2 ^ nat (52 - e))"
    by (simp add: x divide_inverse)
  then have "of_int (roundHalfEven (\<bar>x\<bar> / u)) = \<bar>x\<bar> / u"
    by (simp only: roundHalfEven_int)
  moreover have "u \<noteq> 0" by (simp add: u_def)
  ultimately have r: "u * of_int (roundHalfEven (\<bar>x\<bar> / u)) = \<bar>x\<bar>" by simp
  from assms(2) have small: "\<not> 2 powi 1024 \<le> \<bar>x\<bar>"
  proof -
    have "(2::rat) ^ 53 \<le> 2 ^ 1024" by (rule power_increasing) simp_all
    with assms(2) show ?thesis by simp
  qed
  have "roundToDouble x =
      (if 2 powi 1024 \<le> \<bar>x\<bar> then (if 0 < x then PosInfinity else NegInfinity)
       else Finite (if 0 < x then \<bar>x\<bar> else - \<bar>x\<bar>))"
    unfolding roundToDouble_def Let_def e_def [symmetric] u_def [symmetric] r ..
  with small show ?thesis by simp
qed

lemma roundToDouble_overflow:
  assumes "2 ^ 1024 \<le> x"
  shows "roundToDouble x = PosInfinity"
proof -
  have pos: "0 < x" using assms by (rule less_le_trans [rotated]) simp
  then have ax: "\<bar>x\<bar> = x" by simp
  have "(2::rat) powi 1023 \<le> 2 powi 1024" by (intro power_int_increasing) simp_all
  with assms have "(2::rat) powi 1023 \<le> x" by simp
  with exponentFrom_range [of 2044 x] have "exponentFrom (Suc 2044) x = 1023"
    unfolding exponentFrom.simps by simp
  moreover have "Suc 2044 = 2045" by simp
  ultimately have e: "exponent x = 1023" by (simp only: exponent_def)
  define u :: rat where "u = 2 powi 971"
  have u: "0 < u" by (simp add: u_def)
  have "u * 2 ^ 53 = 2 ^ 1024" by (simp add: u_def flip: power_add)
  with assms u have "2 ^ 53 \<le> x / u" by (simp add: field_simps)
  then have "of_int (2 ^ 53) \<le> x / u" by simp
  then have "2 ^ 53 \<le> roundHalfEven (x / u)" by (rule roundHalfEven_ge)
  then have "(of_int (2 ^ 53) :: rat) \<le> of_int (roundHalfEven (x / u))"
    by (simp only: of_int_le_iff)
  then have "(2::rat) ^ 53 \<le> of_int (roundHalfEven (x / u))" by simp
  with u have "u * 2 ^ 53 \<le> u * of_int (roundHalfEven (x / u))" by simp
  with \<open>u * 2 ^ 53 = 2 ^ 1024\<close> have "2 ^ 1024 \<le> u * of_int (roundHalfEven (x / u))" by simp
  then show ?thesis
    using pos by (simp add: roundToDouble_def Let_def ax e u_def)
qed

lemma roundToDouble_2_53: "roundToDouble 9007199254740992 = Finite 9007199254740992"
proof -
  have e: "exponent 9007199254740992 = 53"
    by (rule exponent_unique) simp_all
  show ?thesis
    by (simp add: roundToDouble_def Let_def e roundHalfEven_def)
qed

lemma roundToDouble_2_53_plus_1: "roundToDouble 9007199254740993 = Finite 9007199254740992"
proof -
  have e: "exponent 9007199254740993 = 53"
    by (rule exponent_unique) simp_all
  have f: "\<lfloor>(9007199254740993::rat) / 2\<rfloor> = 4503599627370496"
    by (rule floor_unique) simp_all
  show ?thesis
    by (simp add: roundToDouble_def Let_def e roundHalfEven_def f)
qed

section \<open>Facts about the store operations\<close>

lemma findFirst_member:
  "material_findFirst s mid tid = Some m \<Longrightarrow>
     m \<in> set (materials s) \<and> material_id m = mid \<and> material_tenantId m = tid \<and> deletedAt m = None"
  by (auto simp: material_findFirst_def find_Some_iff)

lemma findFirst_None_iff:
  "material_findFirst s mid tid = None \<longleftrightarrow>
     (\<forall>m \<in> set (materials s). \<not> (material_id m = mid \<and> material_tenantId m = tid \<and> deletedAt m = None))"
  by (auto simp: material_findFirst_def find_None_iff)

lemma update_after_findFirst:
  assumes "material_findFirst s mid tid = Some m"
  shows "\<exists>m0. find (\<lambda>x. material_id x = mid) (materials s) = Some m0 \<and> material_id m0 = mid"
proof (cases "find (\<lambda>x. material_id x = mid) (materials s)")
  case None
  with findFirst_member [OF assms] show ?thesis by (auto simp: find_None_iff)
next
  case (Some m0)
  then show ?thesis by (auto simp: find_Some_iff)
qed

lemma find_in_updated_rows:
  assumes "\<And>x. P (f x) = P x"
  shows "find P (map (\<lambda>x. if material_id x = mid then f x else x) ms) =
     map_option (\<lambda>x. if material_id x = mid then f x else x) (find P ms)"
  using assms by (induction ms) auto

lemma findFirst_after_stock_update:
  assumes "material_findFirst s mid tid = Some m"
    and "materials s' = map (\<lambda>x. if material_id x = mid then x\<lparr>currentStock := v\<rparr> else x)
                           (materials s)"
  shows "material_findFirst s' mid tid = Some (m\<lparr>currentStock := v\<rparr>)"
proof -
  have "find (\<lambda>m. material_id m = mid \<and> material_tenantId m = tid \<and> deletedAt m = None)
           (materials s') =
        map_option (\<lambda>x. if material_id x = mid then x\<lparr>currentStock := v\<rparr> else x)
          (find (\<lambda>m. material_id m = mid \<and> material_tenantId m = tid \<and> deletedAt m = None)
             (materials s))"
    unfolding assms(2) by (rule find_in_updated_rows) simp
  with assms(1) findFirst_member [OF assms(1)] show ?thesis
    by (simp add: material_findFirst_def)
qed

lemma stocks_of_deleted_rows:
  "map currentStock (map (\<lambda>x. if material_id x = mid then x\<lparr>deletedAt := d\<rparr> else x) xs) =
     map currentStock xs"
  by (induction xs) simp_all

lemma deleted_rows_not_found:
  "\<forall>x \<in> set (map (\<lambda>x. if material_id x = mid then x\<lparr>deletedAt := Some now\<rparr> else x) xs).
     \<not> (material_id x = mid \<and> material_tenantId x = tid \<and> deletedAt x = None)"
  by (induction xs) simp_all

lemma filter_length_mono:
  "\<forall>x \<in> set xs. P x \<longrightarrow> Q x \<Longrightarrow> length (filter P xs) \<le> length (filter Q xs)"
  by (induction xs) auto

lemma filter_length_strict:
  assumes "\<forall>x \<in> set xs. P x \<longrightarrow> Q x" and "d \<in> set xs" and "Q d" and "\<not> P d"
  shows "length (filter P xs) < length (filter Q xs)"
  using assms
proof (induction xs)
  case Nil
  then show ?case by simp
next
  case (Cons x xs)
  from Cons.prems(1) have sub: "\<forall>x \<in> set xs. P x \<longrightarrow> Q x" by simp
  show ?case
  proof (cases "d \<in> set xs")
    case True
    from Cons.IH [OF sub True Cons.prems(3,4)] Cons.prems(1) show ?thesis by auto
  next
    case False
    with Cons.prems(2) have "x = d" by simp
    with Cons.prems(3,4) filter_length_mono [OF sub] show ?thesis by simp
  qed
qed

lemma createTransactionSchema_positive:
  "createTransactionSchema body = Some (ty, Finite r) \<Longrightarrow> 0 < r"
  by (auto simp: createTransactionSchema_def positive_def Let_def
      split: option.splits json.splits if_splits)

section \<open>The outcomes of the controllers\<close>

lemma createTransaction_write_found:
  assumes "material_findFirst s mid tid = Some m"
    and "pending_newStock w = Finite v" and "pending_quantity w = Finite r"
  shows "createTransaction_write mid w s =
     (Inr (TransactionCreated mid v
             \<lparr>transaction_tenantId = pending_tenantId w, materialId = mid,
              type = pending_type w, quantity = r,
              preTransactionStock = pending_preTransactionStock w\<rparr>),
      s\<lparr>materials := map (\<lambda>x. if material_id x = mid then x\<lparr>currentStock := v\<rparr> else x) (materials s),
        transactions := transactions s @
          [\<lparr>transaction_tenantId = pending_tenantId w, materialId = mid,
            type = pending_type w, quantity = r,
            preTransactionStock = pending_preTransactionStock w\<rparr>]\<rparr>)"
  using update_after_findFirst [OF assms(1)] assms(2,3)
  by (auto simp: createTransaction_write_def material_update_def transaction_create_def)

lemma createTransaction_accepted:
  assumes "createTransactionSchema body = Some (ty, Finite r)"
    and "material_findFirst s mid (tenant_id reqTenant) = Some m"
    and "ty = OUT \<longrightarrow> r \<le> currentStock m"
    and "roundToDouble (case ty of IN \<Rightarrow> currentStock m + r | OUT \<Rightarrow> currentStock m - r) =
           Finite v"
  shows "createTransaction reqTenant mid body s =
     (Inr (TransactionCreated mid v
             \<lparr>transaction_tenantId = tenant_id reqTenant, materialId = mid, type = ty,
              quantity = r, preTransactionStock = currentStock m\<rparr>),
      s\<lparr>materials :=
           map (\<lambda>x. if material_id x = mid then x\<lparr>currentStock := v\<rparr> else x) (materials s),
        transactions := transactions s @
           [\<lparr>transaction_tenantId = tenant_id reqTenant, materialId = mid, type = ty,
             quantity = r, preTransactionStock = currentStock m\<rparr>]\<rparr>)"
proof (cases ty)
  case IN
  with assms(4) have v: "js_add (currentStock m) (Finite r) = Finite v"
    by (simp add: js_add_def)
  show ?thesis
    unfolding createTransaction_def createTransaction_read_def createTransaction_finish_def
    by (simp add: assms(1,2) IN Let_def v createTransaction_write_found [OF assms(2)])
next
  case OUT
  with assms(4) have v: "js_sub (currentStock m) (Finite r) = Finite v"
    by (simp add: js_sub_def)
  from OUT assms(3) have enough: "\<not> js_less (currentStock m) (Finite r)"
    by (simp add: js_less_def)
  show ?thesis
    unfolding createTransaction_def createTransaction_read_def createTransaction_finish_def
    by (simp add: assms(1,2) OUT Let_def v enough createTransaction_write_found [OF assms(2)])
qed

lemma createTransaction_refused:
  assumes "createTransactionSchema body = Some (ty, q)"
    and "material_findFirst s mid (tenant_id reqTenant) = Some m"
    and "ty = OUT \<longrightarrow> \<not> js_less (currentStock m) q"
    and "\<forall>v. (case ty of IN \<Rightarrow> js_add (currentStock m) q | OUT \<Rightarrow> js_sub (currentStock m) q) \<noteq>
           Finite v"
  shows "createTransaction reqTenant mid body s = (Inl InternalServerError, s)"
proof (cases ty)
  case IN
  with assms(4) have "\<forall>v. js_add (currentStock m) q \<noteq> Finite v" by simp
  then show ?thesis
    unfolding createTransaction_def createTransaction_read_def createTransaction_finish_def
    by (cases "js_add (currentStock m) q")
      (simp_all add: assms(1,2) IN Let_def createTransaction_write_def)
next
  case OUT
  with assms(4) have "\<forall>v. js_sub (currentStock m) q \<noteq> Finite v" by simp
  then show ?thesis
    unfolding createTransaction_def createTransaction_read_def createTransaction_finish_def
    using OUT assms(3)
    by (cases "js_sub (currentStock m) q")
      (simp_all add: assms(1,2) Let_def createTransaction_write_def)
qed

lemma createTransaction_rejected:
  assumes "createTransactionSchema body = Some (OUT, q)"
    and "material_findFirst s mid (tenant_id reqTenant) = Some m"
    and "js_less (currentStock m) q"
  shows "createTransaction reqTenant mid body s =
     (Inl (InsufficientStock (currentStock m) (unit m) q), s)"
  using assms
  by (simp add: createTransaction_def createTransaction_read_def createTransaction_finish_def Let_def)

lemma createMaterial_outcome:
  assumes "createMaterial reqTenant body newId s = (r, s')"
  shows "s' = s \<or>
    (\<exists>n u. s' = s\<lparr>materials := materials s @
                [\<lparr>material_id = newId, material_tenantId = tenant_id reqTenant, name = n,
                  unit = u, currentStock = 0, deletedAt = None\<rparr>]\<rparr> \<and>
           (\<forall>x \<in> set (materials s). material_id x \<noteq> newId))"
  using assms
  by (auto simp: createMaterial_def material_create_def list_ex_iff
      split: option.splits if_splits prod.splits)


lemma createTransaction_outcome:
  assumes "createTransaction reqTenant mid body s = (a, s')"
  shows "s' = s \<or>
    (\<exists>ty r v m. 0 < r \<and> material_findFirst s mid (tenant_id reqTenant) = Some m \<and>
       (ty = OUT \<longrightarrow> r \<le> currentStock m) \<and>
       roundToDouble (case ty of IN \<Rightarrow> currentStock m + r | OUT \<Rightarrow> currentStock m - r) =
         Finite v \<and>
       s' = s\<lparr>materials :=
                 map (\<lambda>x. if material_id x = mid then x\<lparr>currentStock := v\<rparr> else x)
                   (materials s),
              transactions := transactions s @
                 [\<lparr>transaction_tenantId = tenant_id reqTenant, materialId = mid, type = ty,
                   quantity = r, preTransactionStock = currentStock m\<rparr>]\<rparr>)"
proof (cases "createTransactionSchema body")
  case None
  with assms show ?thesis
    by (simp add: createTransaction_def createTransaction_read_def createTransaction_finish_def)
next
  case (Some p)
  obtain ty q where p: "p = (ty, q)" by (cases p)
  note schema = Some [unfolded p]
  show ?thesis
  proof (cases "material_findFirst s mid (tenant_id reqTenant)")
    case None
    with assms schema show ?thesis
      by (simp add: createTransaction_def createTransaction_read_def createTransaction_finish_def)
  next
    case found: (Some m)
    show ?thesis
    proof (cases "ty = OUT \<and> js_less (currentStock m) q")
      case True
      with createTransaction_rejected [of body q s mid reqTenant m] schema found assms
      show ?thesis by simp
    next
      case False
      then have pass: "ty = OUT \<longrightarrow> \<not> js_less (currentStock m) q" by auto
      show ?thesis
      proof (cases "\<exists>v. (case ty of IN \<Rightarrow> js_add (currentStock m) q
                         | OUT \<Rightarrow> js_sub (currentStock m) q) = Finite v")
        case False
        then have "\<forall>v. (case ty of IN \<Rightarrow> js_add (currentStock m) q
                         | OUT \<Rightarrow> js_sub (currentStock m) q) \<noteq> Finite v" by simp
        from createTransaction_refused [OF schema found pass this] assms
        show ?thesis by simp
      next
        case True
        then obtain v where v: "(case ty of IN \<Rightarrow> js_add (currentStock m) q
                         | OUT \<Rightarrow> js_sub (currentStock m) q) = Finite v" by blast
        then obtain r where q: "q = Finite r"
          by (cases q; cases ty) (simp_all add: js_add_def js_sub_def)
        from v have rounded: "roundToDouble (case ty of IN \<Rightarrow> currentStock m + r
            | OUT \<Rightarrow> currentStock m - r) = Finite v"
          by (cases ty) (simp_all add: q js_add_def js_sub_def)
        from pass have ok: "ty = OUT \<longrightarrow> r \<le> currentStock m"
          by (auto simp: q js_less_def)
        note schema' = schema [unfolded q]
        from createTransaction_accepted [OF schema' found ok rounded] assms
          createTransactionSchema_positive [OF schema'] found ok rounded
        show ?thesis by auto
      qed
    qed
  qed
qed

lemma softDeleteMaterial_outcome:
  assumes "softDeleteMaterial reqTenant mid now s = (r, s')"
  shows "s' = s \<or>
    s' = s\<lparr>materials := map (\<lambda>x. if material_id x = mid then x\<lparr>deletedAt := Some now\<rparr> else x)
                           (materials s)\<rparr>"
  using assms
  by (auto simp: softDeleteMaterial_def material_update_def split: option.splits)

lemma softDeleteMaterial_found:
  assumes "material_findFirst s mid (tenant_id reqTenant) = Some m"
  shows "\<exists>nm. softDeleteMaterial reqTenant mid now s =
     (Inr (MaterialSoftDeleted nm mid (Some now)),
      s\<lparr>materials := map (\<lambda>x. if material_id x = mid then x\<lparr>deletedAt := Some now\<rparr> else x)
                        (materials s)\<rparr>)"
  using update_after_findFirst [OF assms] assms
  by (auto simp: softDeleteMaterial_def material_update_def)

lemma softDeleteMaterial_lowers_count:
  assumes "material_findFirst s mid (tenant_id reqTenant) = Some m"
  shows "material_count (snd (softDeleteMaterial reqTenant mid now s)) (tenant_id reqTenant) <
         material_count s (tenant_id reqTenant)"
proof -
  let ?g = "\<lambda>x. if material_id x = mid then x\<lparr>deletedAt := Some now\<rparr> else x"
  let ?Q = "\<lambda>x. material_tenantId x = tenant_id reqTenant \<and> deletedAt x = None"
  from softDeleteMaterial_found [OF assms, of now]
  have ms: "materials (snd (softDeleteMaterial reqTenant mid now s)) = map ?g (materials s)"
    by auto
  from findFirst_member [OF assms]
  have m: "m \<in> set (materials s)" "?Q m" "\<not> (?Q \<circ> ?g) m" by simp_all
  have "\<forall>x \<in> set (materials s). (?Q \<circ> ?g) x \<longrightarrow> ?Q x" by simp
  from filter_length_strict [OF this m]
  show ?thesis by (simp add: material_count_def ms filter_map comp_def)
qed

section \<open>The invariant of the runs\<close>

lemma ids_of_updated_rows:
  assumes "\<And>x. material_id (f x) = material_id x"
  shows "material_id ` set (map (\<lambda>x. if material_id x = mid then f x else x) ms) =
     material_id ` set ms"
proof -
  have "map material_id (map (\<lambda>x. if material_id x = mid then f x else x) ms) =
        map material_id ms"
    using assms by (induction ms) auto
  then have "set (map material_id (map (\<lambda>x. if material_id x = mid then f x else x) ms)) =
        set (map material_id ms)" by (rule arg_cong)
  then show ?thesis unfolding set_map .
qed

lemma referential_step:
  assumes "referential s"
    and "material_id ` set (materials s') = material_id ` set (materials s) \<union> new"
    and "\<forall>t \<in> set (transactions s').
           t \<in> set (transactions s) \<or> materialId t \<in> material_id ` set (materials s)"
  shows "referential s'"
  unfolding referential_def
proof
  fix t assume "t \<in> set (transactions s')"
  with assms(3) have "t \<in> set (transactions s) \<or> materialId t \<in> material_id ` set (materials s)"
    by simp
  with assms(1) have "materialId t \<in> material_id ` set (materials s)"
    unfolding referential_def by fastforce
  then show "materialId t \<in> material_id ` set (materials s')" unfolding assms(2) by simp
qed

lemma ledgerRounded_same_transactions:
  "transactions s' = transactions s \<Longrightarrow> ledgerRounded s' k = ledgerRounded s k"
  by (simp add: ledgerRounded_def history_def)

lemma ledgerRounded_new_transaction:
  "transactions s' = transactions s @ [t] \<Longrightarrow>
     ledgerRounded s' k =
       (if materialId t = k then addSigned (ledgerRounded s k) t else ledgerRounded s k)"
  by (simp add: ledgerRounded_def history_def)

lemma history_unreferenced:
  assumes "referential s" and "\<forall>x \<in> set (materials s). material_id x \<noteq> mid"
  shows "history s mid = []"
proof -
  from assms have "\<forall>t \<in> set (transactions s). materialId t \<noteq> mid"
    unfolding referential_def by fastforce
  then show ?thesis by (simp add: history_def filter_empty_conv)
qed

lemma stockIsLedger_iff:
  "stockIsLedger s \<longleftrightarrow>
     (\<forall>m \<in> set (materials s).
        Finite (currentStock m) = ledgerRounded s (material_id m) \<and> 0 \<le> currentStock m)"
  by (simp add: stockIsLedger_def list_all_iff)

lemma createMaterial_invariant:
  assumes "referential s" and "stockIsLedger s"
  shows "referential (snd (createMaterial reqTenant body newId s)) \<and>
         stockIsLedger (snd (createMaterial reqTenant body newId s))"
proof -
  obtain r s' where eq: "createMaterial reqTenant body newId s = (r, s')"
    by (cases "createMaterial reqTenant body newId s")
  from createMaterial_outcome [OF eq] show ?thesis
  proof
    assume "s' = s"
    with eq assms show ?thesis by simp
  next
    assume "\<exists>n u. s' = s\<lparr>materials := materials s @
                [\<lparr>material_id = newId, material_tenantId = tenant_id reqTenant, name = n,
                  unit = u, currentStock = 0, deletedAt = None\<rparr>]\<rparr> \<and>
           (\<forall>x \<in> set (materials s). material_id x \<noteq> newId)"
    then obtain n u where s': "s' = s\<lparr>materials := materials s @
                [\<lparr>material_id = newId, material_tenantId = tenant_id reqTenant, name = n,
                  unit = u, currentStock = 0, deletedAt = None\<rparr>]\<rparr>"
      and fresh: "\<forall>x \<in> set (materials s). material_id x \<noteq> newId" by blast
    have ts: "transactions s' = transactions s" by (simp add: s')
    have "history s newId = []" by (rule history_unreferenced [OF assms(1) fresh])
    then have zero: "ledgerRounded s newId = Finite 0" by (simp add: ledgerRounded_def)
    have "referential s'"
      by (rule referential_step [OF assms(1), where new = "{newId}"]) (auto simp: s')
    moreover have "stockIsLedger s'"
      using assms(2) zero unfolding stockIsLedger_iff ledgerRounded_same_transactions [OF ts]
      by (auto simp: s')
    ultimately show ?thesis using eq by simp
  qed
qed

lemma softDeleteMaterial_invariant:
  assumes "referential s" and "stockIsLedger s"
  shows "referential (snd (softDeleteMaterial reqTenant mid now s)) \<and>
         stockIsLedger (snd (softDeleteMaterial reqTenant mid now s))"
proof -
  obtain r s' where eq: "softDeleteMaterial reqTenant mid now s = (r, s')"
    by (cases "softDeleteMaterial reqTenant mid now s")
  from softDeleteMaterial_outcome [OF eq] show ?thesis
  proof
    assume "s' = s"
    with eq assms show ?thesis by simp
  next
    assume s': "s' = s\<lparr>materials := map (\<lambda>x. if material_id x = mid then x\<lparr>deletedAt := Some now\<rparr> else x)
                           (materials s)\<rparr>"
    have ms: "materials s' = map (\<lambda>x. if material_id x = mid then x\<lparr>deletedAt := Some now\<rparr> else x)
                           (materials s)"
      and ts: "transactions s' = transactions s" by (simp_all add: s')
    have ids: "material_id ` set (materials s') = material_id ` set (materials s) \<union> {}"
      unfolding ms
      using ids_of_updated_rows [where f = "\<lambda>x. x\<lparr>deletedAt := Some now\<rparr>"
                 and mid = mid and ms = "materials s"]
      by simp
    have "referential s'"
      by (rule referential_step [OF assms(1) ids]) (simp add: ts)
    moreover have "stockIsLedger s'"
      using assms(2) unfolding stockIsLedger_iff ledgerRounded_same_transactions [OF ts] ms
      by auto
    ultimately show ?thesis using eq by simp
  qed
qed

lemma createTransaction_invariant:
  assumes "referential s" and "stockIsLedger s"
  shows "referential (snd (createTransaction reqTenant mid body s)) \<and>
         stockIsLedger (snd (createTransaction reqTenant mid body s))"
proof -
  obtain a s' where eq: "createTransaction reqTenant mid body s = (a, s')"
    by (cases "createTransaction reqTenant mid body s")
  from createTransaction_outcome [OF eq] show ?thesis
  proof
    assume "s' = s"
    with eq assms show ?thesis by simp
  next
    assume "\<exists>ty r v m. 0 < r \<and> material_findFirst s mid (tenant_id reqTenant) = Some m \<and>
       (ty = OUT \<longrightarrow> r \<le> currentStock m) \<and>
       roundToDouble (case ty of IN \<Rightarrow> currentStock m + r | OUT \<Rightarrow> currentStock m - r) =
         Finite v \<and>
       s' = s\<lparr>materials :=
                 map (\<lambda>x. if material_id x = mid then x\<lparr>currentStock := v\<rparr> else x)
                   (materials s),
              transactions := transactions s @
                 [\<lparr>transaction_tenantId = tenant_id reqTenant, materialId = mid, type = ty,
                   quantity = r, preTransactionStock = currentStock m\<rparr>]\<rparr>"
    then obtain ty r v m where r: "0 < r"
      and found: "material_findFirst s mid (tenant_id reqTenant) = Some m"
      and enough: "ty = OUT \<longrightarrow> r \<le> currentStock m"
      and rounded: "roundToDouble (case ty of IN \<Rightarrow> currentStock m + r
          | OUT \<Rightarrow> currentStock m - r) = Finite v"
      and s': "s' = s\<lparr>materials :=
                 map (\<lambda>x. if material_id x = mid then x\<lparr>currentStock := v\<rparr> else x)
                   (materials s),
              transactions := transactions s @
                 [\<lparr>transaction_tenantId = tenant_id reqTenant, materialId = mid, type = ty,
                   quantity = r, preTransactionStock = currentStock m\<rparr>]\<rparr>" by blast
    define row where
      "row = \<lparr>transaction_tenantId = tenant_id reqTenant, materialId = mid, type = ty,
              quantity = r, preTransactionStock = currentStock m\<rparr>"
    have ms: "materials s' =
        map (\<lambda>x. if material_id x = mid then x\<lparr>currentStock := v\<rparr> else x) (materials s)"
      and ts: "transactions s' = transactions s @ [row]"
      by (simp_all add: s' row_def)
    from findFirst_member [OF found] have m: "m \<in> set (materials s)" "material_id m = mid"
      by simp_all
    from assms(2) m have pre: "Finite (currentStock m) = ledgerRounded s mid"
      "0 \<le> currentStock m"
      unfolding stockIsLedger_iff by auto
    have exact: "(case ty of IN \<Rightarrow> currentStock m + r | OUT \<Rightarrow> currentStock m - r) =
        currentStock m + signedQuantity row"
      by (cases ty) (simp_all add: row_def signedQuantity_def)
    have "0 \<le> currentStock m + signedQuantity row"
      using pre(2) r enough by (cases ty) (simp_all add: row_def signedQuantity_def)
    from this rounded [unfolded exact] have nonneg: "0 \<le> v"
      by (rule roundToDouble_nonneg)
    have sum: "Finite v = addSigned (ledgerRounded s mid) row"
      using rounded unfolding exact by (simp add: pre(1) [symmetric] addSigned_def)
    have ids: "material_id ` set (materials s') = material_id ` set (materials s) \<union> {}"
      unfolding ms
      using ids_of_updated_rows [where f = "\<lambda>x. x\<lparr>currentStock := v\<rparr>"
                 and mid = mid and ms = "materials s"]
      by simp
    have "referential s'"
      by (rule referential_step [OF assms(1) ids]) (use m in \<open>auto simp: ts row_def\<close>)
    moreover have "stockIsLedger s'"
      unfolding stockIsLedger_iff
    proof
      fix x assume "x \<in> set (materials s')"
      then obtain y where y: "y \<in> set (materials s)"
        and x: "x = (if material_id y = mid then y\<lparr>currentStock := v\<rparr> else y)"
        unfolding ms by auto
      from assms(2) y have old: "Finite (currentStock y) = ledgerRounded s (material_id y)"
        "0 \<le> currentStock y"
        unfolding stockIsLedger_iff by auto
      have mrow: "materialId row = mid" by (simp add: row_def)
      show "Finite (currentStock x) = ledgerRounded s' (material_id x) \<and> 0 \<le> currentStock x"
        using old sum nonneg x by (simp add: ledgerRounded_new_transaction [OF ts] mrow)
    qed
    ultimately show ?thesis using eq by simp
  qed
qed

lemma exec_invariant:
  assumes "referential s" and "stockIsLedger s"
  shows "referential (exec op s) \<and> stockIsLedger (exec op s)"
proof (cases op)
  case (CreateMaterial reqTenant body newId)
  with createMaterial_invariant [OF assms] show ?thesis by simp
next
  case (CreateTransaction reqTenant mid body)
  with createTransaction_invariant [OF assms] show ?thesis by simp
next
  case (SoftDeleteMaterial reqTenant mid now)
  with softDeleteMaterial_invariant [OF assms] show ?thesis by simp
qed

lemma run_invariant:
  "referential s \<Longrightarrow> stockIsLedger s \<Longrightarrow> referential (run ops s) \<and> stockIsLedger (run ops s)"
proof (induction ops arbitrary: s)
  case Nil
  then show ?case by simp
next
  case (Cons op ops)
  from exec_invariant [OF Cons.prems]
  have "referential (exec op s)" and "stockIsLedger (exec op s)" by blast+
  then have "referential (run ops (exec op s)) \<and> stockIsLedger (run ops (exec op s))"
    by (rule Cons.IH)
  then show ?case by simp
qed

lemma initDb_invariant: "referential (initDb ts us) \<and> stockIsLedger (initDb ts us)"
  by (simp add: initDb_def referential_def stockIsLedger_def)

lemma signedQuantity_integer: "quantity t \<in> \<int> \<Longrightarrow> signedQuantity t \<in> \<int>"
  by (cases "type t") (simp_all add: signedQuantity_def)

lemma signedQuantity_abs: "\<bar>signedQuantity t\<bar> = \<bar>quantity t\<bar>"
  by (cases "type t") (simp_all add: signedQuantity_def)

lemma signed_sum_integer:
  "\<forall>t \<in> set h. quantity t \<in> \<int> \<Longrightarrow> sum_list (map signedQuantity h) \<in> \<int>"
  by (induction h) (simp_all add: signedQuantity_integer)

lemma signed_sum_bound:
  "\<bar>sum_list (map signedQuantity h)\<bar> \<le> sum_list (map (\<lambda>t. \<bar>quantity t\<bar>) h)"
proof (induction h)
  case Nil
  then show ?case by simp
next
  case (Cons t h)
  have "\<bar>signedQuantity t + sum_list (map signedQuantity h)\<bar> \<le>
        \<bar>signedQuantity t\<bar> + \<bar>sum_list (map signedQuantity h)\<bar>" by (rule abs_triangle_ineq)
  with Cons.IH show ?case by (simp add: signedQuantity_abs)
qed

lemma rounded_sum_exact:
  assumes "\<forall>t \<in> set h. quantity t \<in> \<int>"
    and "sum_list (map (\<lambda>t. \<bar>quantity t\<bar>) h) < 2 ^ 53"
  shows "foldl addSigned (Finite 0) h = Finite (sum_list (map signedQuantity h))"
  using assms
proof (induction h rule: rev_induct)
  case Nil
  then show ?case by simp
next
  case (snoc t h)
  from snoc.prems(1) have ints: "\<forall>t \<in> set h. quantity t \<in> \<int>" by simp
  have "sum_list (map (\<lambda>t. \<bar>quantity t\<bar>) h) \<le> sum_list (map (\<lambda>t. \<bar>quantity t\<bar>) (h @ [t]))"
    by simp
  with snoc.prems(2) have small: "sum_list (map (\<lambda>t. \<bar>quantity t\<bar>) h) < 2 ^ 53" by simp
  note before = snoc.IH [OF ints small]
  define S where "S = sum_list (map signedQuantity h)"
  have e: "sum_list (map signedQuantity (h @ [t])) = S + signedQuantity t"
    by (simp add: S_def)
  from snoc.prems(1) have "sum_list (map signedQuantity (h @ [t])) \<in> \<int>"
    by (rule signed_sum_integer)
  moreover from signed_sum_bound [of "h @ [t]"] snoc.prems(2)
  have "\<bar>sum_list (map signedQuantity (h @ [t]))\<bar> < 2 ^ 53" by simp
  ultimately have "roundToDouble (sum_list (map signedQuantity (h @ [t]))) =
      Finite (sum_list (map signedQuantity (h @ [t])))"
    by (rule roundToDouble_integer)
  then have rd: "roundToDouble (S + signedQuantity t) = Finite (S + signedQuantity t)"
    unfolding e .
  have "foldl addSigned (Finite 0) (h @ [t]) = addSigned (foldl addSigned (Finite 0) h) t"
    by simp
  also have "\<dots> = addSigned (Finite S) t"
    unfolding before S_def ..
  also have "\<dots> = roundToDouble (S + signedQuantity t)"
    by (simp add: addSigned_def)
  also note rd
  finally show ?case unfolding e .
qed

section \<open>Evaluating the examples\<close>

lemmas controller_defs =
  createMaterial_def createMaterialSchema_def material_create_def material_count_def
  MAX_FREE_MATERIALS_def createTransaction_def createTransaction_read_def
  createTransaction_finish_def createTransaction_write_def createTransactionSchema_def
  nativeEnum_TransactionType_def material_findFirst_def material_update_def
  transaction_create_def softDeleteMaterial_def getMaterialById_def initDb_def
  positive_def js_add_def js_sub_def js_less_def Let_def

lemmas example_defs = acme_def admin_def clerk_def steel_def movement_def

lemma movement_schema:
  assumes "q \<in> \<int>" and "q < 2 ^ 53" and "0 < q"
  shows "createTransactionSchema (movement ''IN'' q) = Some (IN, Finite q)"
    and "createTransactionSchema (movement ''OUT'' q) = Some (OUT, Finite q)"
proof -
  from assms have "roundToDouble q = Finite q" by (intro roundToDouble_integer) simp_all
  with assms(3) show "createTransactionSchema (movement ''IN'' q) = Some (IN, Finite q)"
    and "createTransactionSchema (movement ''OUT'' q) = Some (OUT, Finite q)"
    by (simp_all add: createTransactionSchema_def nativeEnum_TransactionType_def movement_def
        positive_def)
qed

lemma stocked_eq:
  "stocked =
     \<lparr>tenants = [acme], users = [admin, clerk],
      materials = [\<lparr>material_id = ''M'', material_tenantId = ''T'', name = ''steel'',
                    unit = ''kg'', currentStock = 100, deletedAt = None\<rparr>],
      transactions = [\<lparr>transaction_tenantId = ''T'', materialId = ''M'', type = IN,
                       quantity = 100, preTransactionStock = 0\<rparr>]\<rparr>"
  by (simp add: stocked_def controller_defs example_defs roundToDouble_integer)

lemma bigStock_eq:
  "bigStock =
     \<lparr>tenants = [acme], users = [admin, clerk],
      materials = [\<lparr>material_id = ''M'', material_tenantId = ''T'', name = ''steel'',
                    unit = ''kg'', currentStock = 9007199254740992, deletedAt = None\<rparr>],
      transactions = [\<lparr>transaction_tenantId = ''T'', materialId = ''M'', type = IN,
                       quantity = 9007199254740992, preTransactionStock = 0\<rparr>]\<rparr>"
  by (simp add: bigStock_def controller_defs example_defs roundToDouble_2_53)

lemma stocked_findFirst:
  "material_findFirst stocked ''M'' ''T'' =
      Some \<lparr>material_id = ''M'', material_tenantId = ''T'', name = ''steel'',
             unit = ''kg'', currentStock = 100, deletedAt = None\<rparr>"
  by (simp add: stocked_eq material_findFirst_def)

lemma full_eq:
  "full =
     \<lparr>tenants = [acme], users = [admin, clerk],
      materials =
        [\<lparr>material_id = ''M1'', material_tenantId = ''T'', name = ''a'', unit = ''kg'',
          currentStock = 0, deletedAt = None\<rparr>,
         \<lparr>material_id = ''M2'', material_tenantId = ''T'', name = ''b'', unit = ''kg'',
          currentStock = 0, deletedAt = None\<rparr>,
         \<lparr>material_id = ''M3'', material_tenantId = ''T'', name = ''c'', unit = ''kg'',
          currentStock = 0, deletedAt = None\<rparr>,
         \<lparr>material_id = ''M4'', material_tenantId = ''T'', name = ''d'', unit = ''kg'',
          currentStock = 0, deletedAt = None\<rparr>,
         \<lparr>material_id = ''M5'', material_tenantId = ''T'', name = ''e'', unit = ''kg'',
          currentStock = 0, deletedAt = None\<rparr>],
      transactions = []\<rparr>"
  by (simp add: full_def materialNamed_def controller_defs example_defs)

lemma freed_eq:
  "freed =
     \<lparr>tenants = [acme], users = [admin, clerk],
      materials =
        [\<lparr>material_id = ''M1'', material_tenantId = ''T'', name = ''a'', unit = ''kg'',
          currentStock = 0, deletedAt = None\<rparr>,
         \<lparr>material_id = ''M2'', material_tenantId = ''T'', name = ''b'', unit = ''kg'',
          currentStock = 0, deletedAt = None\<rparr>,
         \<lparr>material_id = ''M3'', material_tenantId = ''T'', name = ''c'', unit = ''kg'',
          currentStock = 0, deletedAt = None\<rparr>,
         \<lparr>material_id = ''M4'', material_tenantId = ''T'', name = ''d'', unit = ''kg'',
          currentStock = 0, deletedAt = None\<rparr>,
         \<lparr>material_id = ''M5'', material_tenantId = ''T'', name = ''e'', unit = ''kg'',
          currentStock = 0, deletedAt = Some 1\<rparr>],
      transactions = []\<rparr>"
  by (simp add: freed_def full_eq controller_defs example_defs)

text \<open>
  A quantity that is read as the positive infinity passes the schema; the batch is refused
  and nothing is written.
\<close>

lemma infinite_quantity_is_refused:
  "createTransaction acme ''M'' (movement ''IN'' (2 ^ 1024)) stocked =
     (Inl InternalServerError, stocked)"
proof -
  have "roundToDouble (2 ^ 1024) = PosInfinity"
    by (rule roundToDouble_overflow) simp
  then have schema: "createTransactionSchema (movement ''IN'' (2 ^ 1024)) = Some (IN, PosInfinity)"
    by (simp add: createTransactionSchema_def nativeEnum_TransactionType_def movement_def
        positive_def)
  have found: "material_findFirst stocked ''M'' (tenant_id acme) =
      Some \<lparr>material_id = ''M'', material_tenantId = ''T'', name = ''steel'',
             unit = ''kg'', currentStock = 100, deletedAt = None\<rparr>"
    by (simp add: stocked_findFirst acme_def)
  show ?thesis
    by (rule createTransaction_refused [OF schema found]) (simp_all add: js_add_def)
qed

section \<open>The claims\<close>

text \<open>
  C1, as amended. In every store reached from a store without materials and transactions by
  a sequence of \<open>createMaterial\<close>, \<open>createTransaction\<close> and \<open>softDeleteMaterial\<close>
  requests, each served to its end before the next, the stock of every material is the sum
  of the signed quantities of its transactions (plus for IN, minus for OUT) taken in the
  order of the history in double arithmetic, and is not negative. It is their exact sum
  when the quantities are whole numbers whose magnitudes sum to less than \<open>2 ^ 53\<close>.
\<close>

theorem stock_is_rounded_ledger:
  assumes "m \<in> set (materials (run ops (initDb ts us)))"
  shows "Finite (currentStock m) = ledgerRounded (run ops (initDb ts us)) (material_id m) \<and>
         0 \<le> currentStock m \<and>
         ((\<forall>t \<in> set (history (run ops (initDb ts us)) (material_id m)). quantity t \<in> \<int>) \<and>
          sum_list (map (\<lambda>t. \<bar>quantity t\<bar>) (history (run ops (initDb ts us)) (material_id m)))
            < 2 ^ 53 \<longrightarrow>
          currentStock m = ledgerSum (run ops (initDb ts us)) (material_id m))"
proof -
  let ?s = "run ops (initDb ts us)"
  from initDb_invariant [of ts us]
  have "referential (initDb ts us)" and "stockIsLedger (initDb ts us)" by blast+
  then have "stockIsLedger ?s"
    using run_invariant by blast
  with assms have inv: "Finite (currentStock m) = ledgerRounded ?s (material_id m)"
    and nonneg: "0 \<le> currentStock m"
    unfolding stockIsLedger_iff by blast+
  have "currentStock m = ledgerSum ?s (material_id m)"
    if "\<forall>t \<in> set (history ?s (material_id m)). quantity t \<in> \<int>"
      and "sum_list (map (\<lambda>t. \<bar>quantity t\<bar>) (history ?s (material_id m))) < 2 ^ 53"
  proof -
    from rounded_sum_exact [OF that]
    have "ledgerRounded ?s (material_id m) = Finite (ledgerSum ?s (material_id m))"
      by (simp add: ledgerRounded_def ledgerSum_def)
    with inv show ?thesis by simp
  qed
  with inv nonneg show ?thesis by blast
qed

theorem stock_is_rounded_ledger_witness:
  "\<lparr>material_id = ''M'', material_tenantId = ''T'', name = ''steel'', unit = ''kg'',
     currentStock = 70, deletedAt = None\<rparr>
     \<in> set (materials (run [CreateMaterial acme steel ''M'',
                             CreateTransaction acme ''M'' (movement ''IN'' 100),
                             CreateTransaction acme ''M'' (movement ''OUT'' 30)]
                         (initDb [acme] [admin, clerk]))) \<and>
   ledgerRounded (run [CreateMaterial acme steel ''M'',
                       CreateTransaction acme ''M'' (movement ''IN'' 100),
                       CreateTransaction acme ''M'' (movement ''OUT'' 30)]
                    (initDb [acme] [admin, clerk])) ''M'' = Finite 70 \<and>
   ledgerSum (run [CreateMaterial acme steel ''M'',
                   CreateTransaction acme ''M'' (movement ''IN'' 100),
                   CreateTransaction acme ''M'' (movement ''OUT'' 30)]
                (initDb [acme] [admin, clerk])) ''M'' = 70"
proof -
  have rows: "run [CreateMaterial acme steel ''M'',
                   CreateTransaction acme ''M'' (movement ''IN'' 100),
                   CreateTransaction acme ''M'' (movement ''OUT'' 30)]
                (initDb [acme] [admin, clerk]) =
     \<lparr>tenants = [acme], users = [admin, clerk],
      materials = [\<lparr>material_id = ''M'', material_tenantId = ''T'', name = ''steel'',
                    unit = ''kg'', currentStock = 70, deletedAt = None\<rparr>],
      transactions = [\<lparr>transaction_tenantId = ''T'', materialId = ''M'', type = IN,
                       quantity = 100, preTransactionStock = 0\<rparr>,
                      \<lparr>transaction_tenantId = ''T'', materialId = ''M'', type = OUT,
                       quantity = 30, preTransactionStock = 100\<rparr>]\<rparr>"
    by (simp add: controller_defs example_defs roundToDouble_integer)
  have mem: "\<lparr>material_id = ''M'', material_tenantId = ''T'', name = ''steel'', unit = ''kg'',
     currentStock = 70, deletedAt = None\<rparr>
     \<in> set (materials (run [CreateMaterial acme steel ''M'',
                             CreateTransaction acme ''M'' (movement ''IN'' 100),
                             CreateTransaction acme ''M'' (movement ''OUT'' 30)]
                         (initDb [acme] [admin, clerk])))"
    unfolding rows by simp
  have whole: "\<forall>t \<in> set (history (run [CreateMaterial acme steel ''M'',
                   CreateTransaction acme ''M'' (movement ''IN'' 100),
                   CreateTransaction acme ''M'' (movement ''OUT'' 30)]
                (initDb [acme] [admin, clerk])) ''M''). quantity t \<in> \<int>"
    and small: "sum_list (map (\<lambda>t. \<bar>quantity t\<bar>) (history (run [CreateMaterial acme steel ''M'',
                   CreateTransaction acme ''M'' (movement ''IN'' 100),
                   CreateTransaction acme ''M'' (movement ''OUT'' 30)]
                (initDb [acme] [admin, clerk])) ''M'')) < 2 ^ 53"
    unfolding rows by (simp_all add: history_def)
  from stock_is_rounded_ledger [OF mem] mem whole small show ?thesis by simp
qed

text \<open>
  C1, as written, fails: after the material is created, \<open>2 ^ 53\<close> are booked in and then
  1, the stock is \<open>2 ^ 53\<close>, the double nearest to the sum, while the quantities sum to
  \<open>2 ^ 53 + 1\<close>.
\<close>

theorem rounded_stock_is_not_the_sum:
  "map currentStock
     (materials (run [CreateMaterial acme steel ''M'',
                      CreateTransaction acme ''M'' (movement ''IN'' 9007199254740992),
                      CreateTransaction acme ''M'' (movement ''IN'' 1)]
                   (initDb [acme] [admin, clerk]))) = [9007199254740992] \<and>
   ledgerSum (run [CreateMaterial acme steel ''M'',
                   CreateTransaction acme ''M'' (movement ''IN'' 9007199254740992),
                   CreateTransaction acme ''M'' (movement ''IN'' 1)]
                (initDb [acme] [admin, clerk])) ''M'' = 9007199254740993"
  by (simp add: controller_defs example_defs roundToDouble_integer roundToDouble_2_53
      roundToDouble_2_53_plus_1 ledgerSum_def history_def signedQuantity_def)

text \<open>
  C2, as amended. A movement whose body the schema accepts with a finite quantity \<open>r\<close>
  (so \<open>r\<close> is positive), on a material that the lookup by id and tenant among the
  non-deleted rows finds, with enough stock when it is an OUT, and such that the double
  nearest to \<open>pre + r\<close> for IN, to \<open>pre - r\<close> for OUT, is finite, where \<open>pre\<close> is the
  stock read: that double becomes the material's stock, exactly one transaction row with the
  type, the quantity and \<open>pre\<close> is appended, nothing else of the store changes, and the
  response carries the material's id, its new stock and the row. Both writes are in the
  one new store. The new stock is \<open>pre + r\<close> or \<open>pre - r\<close> itself when that is a whole
  number of magnitude less than \<open>2 ^ 53\<close>.
\<close>

theorem createTransaction_applies_movement:
  assumes "createTransactionSchema body = Some (ty, Finite r)"
    and "material_findFirst s mid (tenant_id reqTenant) = Some m"
    and "ty = OUT \<longrightarrow> r \<le> currentStock m"
    and "roundToDouble (case ty of IN \<Rightarrow> currentStock m + r | OUT \<Rightarrow> currentStock m - r) =
           Finite post"
  shows
    "let pre = currentStock m;
         row = \<lparr>transaction_tenantId = tenant_id reqTenant, materialId = mid, type = ty,
                quantity = r, preTransactionStock = pre\<rparr>;
         s' = snd (createTransaction reqTenant mid body s)
     in 0 < r \<and>
        fst (createTransaction reqTenant mid body s) = Inr (TransactionCreated mid post row) \<and>
        material_findFirst s' mid (tenant_id reqTenant) = Some (m\<lparr>currentStock := post\<rparr>) \<and>
        materials s' =
          map (\<lambda>x. if material_id x = mid then x\<lparr>currentStock := post\<rparr> else x) (materials s) \<and>
        transactions s' = transactions s @ [row] \<and>
        tenants s' = tenants s \<and> users s' = users s \<and>
        ((case ty of IN \<Rightarrow> pre + r | OUT \<Rightarrow> pre - r) \<in> \<int> \<and>
         \<bar>case ty of IN \<Rightarrow> pre + r | OUT \<Rightarrow> pre - r\<bar> < 2 ^ 53 \<longrightarrow>
           post = (case ty of IN \<Rightarrow> pre + r | OUT \<Rightarrow> pre - r))"
proof -
  define row where "row = \<lparr>transaction_tenantId = tenant_id reqTenant, materialId = mid,
      type = ty, quantity = r, preTransactionStock = currentStock m\<rparr>"
  define s' where "s' = snd (createTransaction reqTenant mid body s)"
  define exact where
    "exact = (case ty of IN \<Rightarrow> currentStock m + r | OUT \<Rightarrow> currentStock m - r)"
  note acc = createTransaction_accepted [OF assms, folded row_def]
  have a: "fst (createTransaction reqTenant mid body s) = Inr (TransactionCreated mid post row)"
    by (simp add: acc)
  have ms: "materials s' =
      map (\<lambda>x. if material_id x = mid then x\<lparr>currentStock := post\<rparr> else x) (materials s)"
    and ts: "transactions s' = transactions s @ [row]"
    and rest: "tenants s' = tenants s" "users s' = users s"
    by (simp_all add: s'_def acc)
  note ff = findFirst_after_stock_update [OF assms(2) ms]
  have whole: "exact \<in> \<int> \<and> \<bar>exact\<bar> < 2 ^ 53 \<longrightarrow> post = exact"
  proof
    assume "exact \<in> \<int> \<and> \<bar>exact\<bar> < 2 ^ 53"
    then have "roundToDouble exact = Finite exact" by (intro roundToDouble_integer) simp_all
    with assms(4) show "post = exact" by (simp add: exact_def)
  qed
  from createTransactionSchema_positive [OF assms(1)] a ff ms ts rest whole
  show ?thesis by (simp add: Let_def row_def s'_def exact_def)
qed

theorem createTransaction_applies_movement_witness:
  "createTransaction acme ''M'' (movement ''OUT'' 30) stocked =
     (Inr (TransactionCreated ''M'' 70
             \<lparr>transaction_tenantId = ''T'', materialId = ''M'', type = OUT, quantity = 30,
              preTransactionStock = 100\<rparr>),
      stocked\<lparr>materials := [\<lparr>material_id = ''M'', material_tenantId = ''T'', name = ''steel'',
                    unit = ''kg'', currentStock = 70, deletedAt = None\<rparr>],
              transactions := [\<lparr>transaction_tenantId = ''T'', materialId = ''M'', type = IN,
                       quantity = 100, preTransactionStock = 0\<rparr>,
                     \<lparr>transaction_tenantId = ''T'', materialId = ''M'', type = OUT, quantity = 30,
              preTransactionStock = 100\<rparr>]\<rparr>)"
proof -
  have schema: "createTransactionSchema (movement ''OUT'' 30) = Some (OUT, Finite 30)"
    by (rule movement_schema) simp_all
  have found: "material_findFirst stocked ''M'' (tenant_id acme) =
      Some \<lparr>material_id = ''M'', material_tenantId = ''T'', name = ''steel'',
                    unit = ''kg'', currentStock = 100, deletedAt = None\<rparr>"
    by (simp add: stocked_eq material_findFirst_def acme_def)
  have enough: "OUT = OUT \<longrightarrow> (30::rat) \<le> currentStock \<lparr>material_id = ''M'', material_tenantId = ''T'', name = ''steel'',
                    unit = ''kg'', currentStock = 100, deletedAt = None\<rparr>" by simp
  have rounded: "roundToDouble (case OUT of
        IN \<Rightarrow> currentStock \<lparr>material_id = ''M'', material_tenantId = ''T'', name = ''steel'',
                    unit = ''kg'', currentStock = 100, deletedAt = None\<rparr> + 30
      | OUT \<Rightarrow> currentStock \<lparr>material_id = ''M'', material_tenantId = ''T'', name = ''steel'',
                    unit = ''kg'', currentStock = 100, deletedAt = None\<rparr> - 30) = Finite 70"
    by (simp add: roundToDouble_integer)
  from createTransaction_applies_movement [OF schema found enough rounded]
  show ?thesis
    by (simp add: Let_def prod_eq_iff stocked_eq acme_def)
qed

text \<open>
  C2, as written, fails: with \<open>2 ^ 53\<close> in stock, an IN of 1 is accepted and answered
  with 201, and the stock written is \<open>2 ^ 53\<close>, the double nearest to the sum, not
  \<open>2 ^ 53 + 1\<close>.
\<close>

theorem rounded_sum_is_stored:
  "createTransactionSchema (movement ''IN'' 1) = Some (IN, Finite 1) \<and>
   material_findFirst bigStock ''M'' ''T'' =
     Some \<lparr>material_id = ''M'', material_tenantId = ''T'', name = ''steel'', unit = ''kg'',
           currentStock = 9007199254740992, deletedAt = None\<rparr> \<and>
   createTransaction acme ''M'' (movement ''IN'' 1) bigStock =
     (Inr (TransactionCreated ''M'' 9007199254740992
             \<lparr>transaction_tenantId = ''T'', materialId = ''M'', type = IN, quantity = 1,
              preTransactionStock = 9007199254740992\<rparr>),
      bigStock\<lparr>materials :=
                 [\<lparr>material_id = ''M'', material_tenantId = ''T'', name = ''steel'',
                   unit = ''kg'', currentStock = 9007199254740992, deletedAt = None\<rparr>],
               transactions :=
                 [\<lparr>transaction_tenantId = ''T'', materialId = ''M'', type = IN,
                   quantity = 9007199254740992, preTransactionStock = 0\<rparr>,
                  \<lparr>transaction_tenantId = ''T'', materialId = ''M'', type = IN, quantity = 1,
                   preTransactionStock = 9007199254740992\<rparr>]\<rparr>)"
  by (simp add: bigStock_eq controller_defs example_defs roundToDouble_integer
      roundToDouble_2_53_plus_1)

text \<open>
  C3. An OUT movement whose quantity exceeds the stock read from the material is answered
  with the insufficient-stock error, which carries the stock read, the material's unit and
  the requested quantity; the store is left as it was.
\<close>

theorem createTransaction_insufficient_stock:
  assumes "createTransactionSchema body = Some (OUT, q)"
    and "material_findFirst s mid (tenant_id reqTenant) = Some m"
    and "js_less (currentStock m) q"
  shows "createTransaction reqTenant mid body s =
     (Inl (InsufficientStock (currentStock m) (unit m) q), s)"
  by (rule createTransaction_rejected [OF assms])

theorem createTransaction_insufficient_stock_witness:
  "createTransaction acme ''M'' (movement ''OUT'' 1000) stocked =
     (Inl (InsufficientStock 100 ''kg'' (Finite 1000)), stocked)"
proof -
  have schema: "createTransactionSchema (movement ''OUT'' 1000) = Some (OUT, Finite 1000)"
    by (rule movement_schema) simp_all
  have found: "material_findFirst stocked ''M'' (tenant_id acme) =
      Some \<lparr>material_id = ''M'', material_tenantId = ''T'', name = ''steel'',
             unit = ''kg'', currentStock = 100, deletedAt = None\<rparr>"
    by (simp add: stocked_findFirst acme_def)
  have less: "js_less (currentStock \<lparr>material_id = ''M'', material_tenantId = ''T'',
      name = ''steel'', unit = ''kg'', currentStock = 100, deletedAt = None\<rparr>) (Finite 1000)"
    by (simp add: js_less_def)
  from createTransaction_insufficient_stock [OF schema found less] show ?thesis by simp
qed

text \<open>
  C4. Two movements on one material that are served at the same time are not put in an
  order: the read of the stock is outside the batch of the two writes, so both requests
  can read the same stock. With 100 in stock, an IN of 5 and an OUT of 3 whose reads are
  both answered before either batch both succeed against the stock 100; the stock ends at
  97, the ledger sums to 102, and either order of serving them one after the other ends
  at 102.
\<close>

theorem concurrent_movements_lose_update:
  "readsBeforeWrites acme ''M'' (movement ''IN'' 5) (movement ''OUT'' 3) stocked =
     ((Inr (TransactionCreated ''M'' 105
              \<lparr>transaction_tenantId = ''T'', materialId = ''M'', type = IN, quantity = 5,
               preTransactionStock = 100\<rparr>),
       Inr (TransactionCreated ''M'' 97
              \<lparr>transaction_tenantId = ''T'', materialId = ''M'', type = OUT, quantity = 3,
               preTransactionStock = 100\<rparr>)),
      stocked\<lparr>materials :=
                [\<lparr>material_id = ''M'', material_tenantId = ''T'', name = ''steel'',
                  unit = ''kg'', currentStock = 97, deletedAt = None\<rparr>],
              transactions :=
                [\<lparr>transaction_tenantId = ''T'', materialId = ''M'', type = IN, quantity = 100,
                  preTransactionStock = 0\<rparr>,
                 \<lparr>transaction_tenantId = ''T'', materialId = ''M'', type = IN, quantity = 5,
                  preTransactionStock = 100\<rparr>,
                 \<lparr>transaction_tenantId = ''T'', materialId = ''M'', type = OUT, quantity = 3,
                  preTransactionStock = 100\<rparr>]\<rparr>) \<and>
   ledgerSum (snd (readsBeforeWrites acme ''M'' (movement ''IN'' 5) (movement ''OUT'' 3) stocked))
     ''M'' = 102 \<and>
   map currentStock
     (materials (run [CreateTransaction acme ''M'' (movement ''IN'' 5),
                      CreateTransaction acme ''M'' (movement ''OUT'' 3)] stocked)) = [102] \<and>
   map currentStock
     (materials (run [CreateTransaction acme ''M'' (movement ''OUT'' 3),
                      CreateTransaction acme ''M'' (movement ''IN'' 5)] stocked)) = [102]"
  by (simp add: readsBeforeWrites_def stocked_eq controller_defs example_defs
      roundToDouble_integer ledgerSum_def history_def signedQuantity_def)

text \<open>
  C5. When no material of the store has the requested id, the requesting tenant and no
  deletion mark, whether because the id is unknown, the material is another tenant's or it
  is soft-deleted, \<open>createTransaction\<close> (with a body the schema accepts),
  \<open>getMaterialById\<close> and \<open>softDeleteMaterial\<close> each answer with the not-found error,
  the same for the three causes, and leave the store as it was.
\<close>

theorem not_found_is_uniform:
  assumes "\<forall>m \<in> set (materials s).
             material_id m = mid \<longrightarrow>
               material_tenantId m \<noteq> tenant_id reqTenant \<or> deletedAt m \<noteq> None"
    and "createTransactionSchema body = Some (ty, q)"
  shows
    "createTransaction reqTenant mid body s =
       (Inl (NotFound ''Material not found or does not belong to your tenant.''), s) \<and>
     getMaterialById reqTenant mid s =
       Inl (NotFound ''Material not found or does not belong to your tenant.'') \<and>
     softDeleteMaterial reqTenant mid now s =
       (Inl (NotFound ''Material not found or already deleted.''), s)"
proof -
  from assms(1) have none: "material_findFirst s mid (tenant_id reqTenant) = None"
    unfolding findFirst_None_iff by blast
  show ?thesis
    by (simp add: none assms(2) createTransaction_def createTransaction_read_def
        createTransaction_finish_def getMaterialById_def softDeleteMaterial_def)
qed

theorem not_found_is_uniform_witness:
  "createTransaction globex ''M'' (movement ''IN'' 5) stocked =
     (Inl (NotFound ''Material not found or does not belong to your tenant.''), stocked) \<and>
   getMaterialById globex ''M'' stocked =
     Inl (NotFound ''Material not found or does not belong to your tenant.'') \<and>
   softDeleteMaterial globex ''M'' 7 stocked =
     (Inl (NotFound ''Material not found or already deleted.''), stocked) \<and>
   createTransaction acme ''X'' (movement ''IN'' 5) stocked =
     (Inl (NotFound ''Material not found or does not belong to your tenant.''), stocked) \<and>
   getMaterialById acme ''X'' stocked =
     Inl (NotFound ''Material not found or does not belong to your tenant.'') \<and>
   softDeleteMaterial acme ''X'' 7 stocked =
     (Inl (NotFound ''Material not found or already deleted.''), stocked) \<and>
   createTransaction acme ''M5'' (movement ''IN'' 5) freed =
     (Inl (NotFound ''Material not found or does not belong to your tenant.''), freed) \<and>
   getMaterialById acme ''M5'' freed =
     Inl (NotFound ''Material not found or does not belong to your tenant.'') \<and>
   softDeleteMaterial acme ''M5'' 7 freed =
     (Inl (NotFound ''Material not found or already deleted.''), freed)"
proof -
  have schema: "createTransactionSchema (movement ''IN'' 5) = Some (IN, Finite 5)"
    by (rule movement_schema) simp_all
  have foreign: "\<forall>m \<in> set (materials stocked).
       material_id m = ''M'' \<longrightarrow>
         material_tenantId m \<noteq> tenant_id globex \<or> deletedAt m \<noteq> None"
    by (simp add: stocked_eq globex_def)
  have absent: "\<forall>m \<in> set (materials stocked).
       material_id m = ''X'' \<longrightarrow>
         material_tenantId m \<noteq> tenant_id acme \<or> deletedAt m \<noteq> None"
    by (simp add: stocked_eq)
  have deleted: "\<forall>m \<in> set (materials freed).
       material_id m = ''M5'' \<longrightarrow>
         material_tenantId m \<noteq> tenant_id acme \<or> deletedAt m \<noteq> None"
    by (simp add: freed_eq)
  from not_found_is_uniform [OF foreign schema, of 7]
    not_found_is_uniform [OF absent schema, of 7]
    not_found_is_uniform [OF deleted schema, of 7]
  show ?thesis by simp
qed

text \<open>
  C6, as amended. For a body the schema accepts: a FREE tenant with five or more
  non-deleted materials is answered with the plan-limit error and nothing is created; with
  fewer than five, or for a PRO tenant, the material is created when no material has the
  generated id and no material of the tenant, soft-deleted ones included, has the name,
  and the request is answered with the conflict error otherwise. A PRO tenant never gets
  the plan-limit error, and soft-deleting a material that the lookup finds lowers the
  tenant's count.
\<close>

theorem createMaterial_plan_limit:
  "(createMaterialSchema body = Some (n, u) \<and> plan reqTenant = FREE \<and>
    5 \<le> material_count s (tenant_id reqTenant) \<longrightarrow>
      createMaterial reqTenant body newId s = (Inl PlanLimitExceeded, s)) \<and>
   (createMaterialSchema body = Some (n, u) \<and>
    (plan reqTenant = PRO \<or> material_count s (tenant_id reqTenant) < 5) \<longrightarrow>
      createMaterial reqTenant body newId s =
        (if list_ex (\<lambda>x. material_id x = newId \<or>
                          (material_tenantId x = tenant_id reqTenant \<and> name x = n))
              (materials s)
         then (Inl Conflict, s)
         else (Inr (MaterialCreated
                      \<lparr>material_id = newId, material_tenantId = tenant_id reqTenant, name = n,
                       unit = u, currentStock = 0, deletedAt = None\<rparr>),
               s\<lparr>materials := materials s @
                    [\<lparr>material_id = newId, material_tenantId = tenant_id reqTenant, name = n,
                      unit = u, currentStock = 0, deletedAt = None\<rparr>]\<rparr>))) \<and>
   (plan reqTenant = PRO \<longrightarrow>
      fst (createMaterial reqTenant body newId s) \<noteq> Inl PlanLimitExceeded) \<and>
   (material_findFirst s mid (tenant_id reqTenant) = Some d \<longrightarrow>
      material_count (snd (softDeleteMaterial reqTenant mid now s)) (tenant_id reqTenant) <
      material_count s (tenant_id reqTenant))"
proof (intro conjI impI)
  assume "createMaterialSchema body = Some (n, u) \<and> plan reqTenant = FREE \<and>
    5 \<le> material_count s (tenant_id reqTenant)"
  then show "createMaterial reqTenant body newId s = (Inl PlanLimitExceeded, s)"
    by (simp add: createMaterial_def MAX_FREE_MATERIALS_def)
next
  assume a: "createMaterialSchema body = Some (n, u) \<and>
    (plan reqTenant = PRO \<or> material_count s (tenant_id reqTenant) < 5)"
  then have "\<not> (plan reqTenant = FREE \<and>
      MAX_FREE_MATERIALS \<le> material_count s (tenant_id reqTenant))"
    by (auto simp: MAX_FREE_MATERIALS_def)
  with a show "createMaterial reqTenant body newId s =
        (if list_ex (\<lambda>x. material_id x = newId \<or>
                          (material_tenantId x = tenant_id reqTenant \<and> name x = n))
              (materials s)
         then (Inl Conflict, s)
         else (Inr (MaterialCreated
                      \<lparr>material_id = newId, material_tenantId = tenant_id reqTenant, name = n,
                       unit = u, currentStock = 0, deletedAt = None\<rparr>),
               s\<lparr>materials := materials s @
                    [\<lparr>material_id = newId, material_tenantId = tenant_id reqTenant, name = n,
                      unit = u, currentStock = 0, deletedAt = None\<rparr>]\<rparr>))"
    by (simp add: createMaterial_def material_create_def)
next
  assume "plan reqTenant = PRO"
  then show "fst (createMaterial reqTenant body newId s) \<noteq> Inl PlanLimitExceeded"
    by (simp add: createMaterial_def material_create_def split: option.splits prod.splits)
next
  assume "material_findFirst s mid (tenant_id reqTenant) = Some d"
  then show "material_count (snd (softDeleteMaterial reqTenant mid now s)) (tenant_id reqTenant) <
      material_count s (tenant_id reqTenant)"
    by (rule softDeleteMaterial_lowers_count)
qed

theorem createMaterial_plan_limit_witness:
  "createMaterial acme (materialNamed ''f'') ''M6'' full = (Inl PlanLimitExceeded, full) \<and>
   material_count (snd (softDeleteMaterial acme ''M5'' 1 full)) ''T'' < material_count full ''T'' \<and>
   createMaterial acme (materialNamed ''f'') ''M6'' freed =
     (Inr (MaterialCreated
             \<lparr>material_id = ''M6'', material_tenantId = ''T'', name = ''f'', unit = ''kg'',
              currentStock = 0, deletedAt = None\<rparr>),
      freed\<lparr>materials := materials freed @
               [\<lparr>material_id = ''M6'', material_tenantId = ''T'', name = ''f'', unit = ''kg'',
                 currentStock = 0, deletedAt = None\<rparr>]\<rparr>) \<and>
   fst (createMaterial globex (materialNamed ''f'') ''M6'' full) \<noteq> Inl PlanLimitExceeded"
proof -
  have schema: "createMaterialSchema (materialNamed ''f'') = Some (''f'', ''kg'')"
    by (simp add: createMaterialSchema_def materialNamed_def)
  have five: "material_count full (tenant_id acme) = 5"
    and four: "material_count freed (tenant_id acme) = 4"
    by (simp_all add: full_eq freed_eq material_count_def acme_def)
  have found: "material_findFirst full ''M5'' (tenant_id acme) =
      Some \<lparr>material_id = ''M5'', material_tenantId = ''T'', name = ''e'', unit = ''kg'',
            currentStock = 0, deletedAt = None\<rparr>"
    by (simp add: full_eq material_findFirst_def acme_def)
  have unused: "\<not> list_ex (\<lambda>x. material_id x = ''M6'' \<or>
        (material_tenantId x = tenant_id acme \<and> name x = ''f'')) (materials freed)"
    by (simp add: freed_eq acme_def)
  have plans: "plan acme = FREE" "plan globex = PRO" "tenant_id acme = ''T''"
    by (simp_all add: acme_def globex_def)
  from createMaterial_plan_limit [where body = "materialNamed ''f''" and n = "''f''"
      and u = "''kg''" and reqTenant = acme and s = full and newId = "''M6''"
      and mid = "''M5''" and now = 1]
    createMaterial_plan_limit [where body = "materialNamed ''f''" and n = "''f''"
      and u = "''kg''" and reqTenant = acme and s = freed and newId = "''M6''"]
    createMaterial_plan_limit [where body = "materialNamed ''f''"
      and reqTenant = globex and s = full and newId = "''M6''"]
    schema five four found unused plans
  show ?thesis by simp
qed

text \<open>
  C6, as written, fails: a FREE tenant created five materials and soft-deleted the fifth,
  so four are counted; creating a material with the name of the deleted one is answered
  with the conflict error, since the unique index on tenant and name covers the deleted
  row.
\<close>

theorem freed_name_is_taken:
  "plan acme = FREE \<and>
   material_count freed (tenant_id acme) = 4 \<and>
   createMaterial acme (materialNamed ''e'') ''M6'' freed = (Inl Conflict, freed)"
  by (simp add: freed_eq materialNamed_def controller_defs example_defs)

text \<open>
  C7. For a request that the tenant middleware lets through: a user whose role is not
  ADMIN is answered with the authorization error on the routes of \<open>createMaterial\<close> and
  \<open>softDeleteMaterial\<close>, the store unchanged; the route of \<open>createTransaction\<close> has no
  role check and gives the controller's answer whatever the role.
\<close>

theorem router_role_check:
  assumes "tenantAuthMiddleware hs s = Inr (reqTenant, reqUser)"
  shows
    "(role reqUser \<noteq> ADMIN \<longrightarrow>
        router hs (POST_materials mbody newId) s = (Inl AuthorizationRequired, s) \<and>
        router hs (DELETE_materials_id mid now) s = (Inl AuthorizationRequired, s)) \<and>
     router hs (POST_materials_id_transactions mid tbody) s =
        createTransaction reqTenant mid tbody s"
  using assms by (simp add: router_def roleCheckMiddleware_def)

theorem router_role_check_witness:
  "router \<lparr>header_tenant_id = Some ''T'', header_user_id = Some ''U2''\<rparr>
     (POST_materials steel ''M2'') stocked = (Inl AuthorizationRequired, stocked) \<and>
   router \<lparr>header_tenant_id = Some ''T'', header_user_id = Some ''U2''\<rparr>
     (DELETE_materials_id ''M'' 5) stocked = (Inl AuthorizationRequired, stocked) \<and>
   router \<lparr>header_tenant_id = Some ''T'', header_user_id = Some ''U2''\<rparr>
     (POST_materials_id_transactions ''M'' (movement ''OUT'' 30)) stocked =
     createTransaction acme ''M'' (movement ''OUT'' 30) stocked"
proof -
  have auth: "tenantAuthMiddleware \<lparr>header_tenant_id = Some ''T'', header_user_id = Some ''U2''\<rparr>
      stocked = Inr (acme, clerk)"
    by (simp add: tenantAuthMiddleware_def stocked_eq acme_def admin_def clerk_def)
  have plain: "role clerk \<noteq> ADMIN" by (simp add: clerk_def)
  from router_role_check [OF auth] plain show ?thesis by simp
qed

text \<open>
  C8. \<open>softDeleteMaterial\<close> on a material that the lookup finds changes the
  \<open>deletedAt\<close> field of the row with the id and nothing else: every stock, the
  transactions and the other tables are as before. A second call on the same material is
  answered with the not-found error.
\<close>

theorem softDeleteMaterial_frame:
  assumes "material_findFirst s mid (tenant_id reqTenant) = Some m"
  shows
    "let s' = snd (softDeleteMaterial reqTenant mid now s)
     in (\<exists>nm. fst (softDeleteMaterial reqTenant mid now s) =
                 Inr (MaterialSoftDeleted nm mid (Some now))) \<and>
        materials s' =
          map (\<lambda>x. if material_id x = mid then x\<lparr>deletedAt := Some now\<rparr> else x) (materials s) \<and>
        map currentStock (materials s') = map currentStock (materials s) \<and>
        transactions s' = transactions s \<and>
        tenants s' = tenants s \<and> users s' = users s \<and>
        softDeleteMaterial reqTenant mid later s' =
          (Inl (NotFound ''Material not found or already deleted.''), s')"
proof -
  define s' where "s' = snd (softDeleteMaterial reqTenant mid now s)"
  from softDeleteMaterial_found [OF assms, of now] obtain nm where
    eq: "softDeleteMaterial reqTenant mid now s =
     (Inr (MaterialSoftDeleted nm mid (Some now)),
      s\<lparr>materials := map (\<lambda>x. if material_id x = mid then x\<lparr>deletedAt := Some now\<rparr> else x)
                        (materials s)\<rparr>)" by blast
  have r: "\<exists>nm. fst (softDeleteMaterial reqTenant mid now s) =
                 Inr (MaterialSoftDeleted nm mid (Some now))"
    by (simp add: eq)
  have ms: "materials s' =
      map (\<lambda>x. if material_id x = mid then x\<lparr>deletedAt := Some now\<rparr> else x) (materials s)"
    and rest: "transactions s' = transactions s" "tenants s' = tenants s" "users s' = users s"
    by (simp_all add: s'_def eq)
  have stocks: "map currentStock (materials s') = map currentStock (materials s)"
    unfolding ms by (rule stocks_of_deleted_rows)
  have "\<forall>x \<in> set (materials s'). \<not> (material_id x = mid \<and>
      material_tenantId x = tenant_id reqTenant \<and> deletedAt x = None)"
    unfolding ms by (rule deleted_rows_not_found)
  then have "material_findFirst s' mid (tenant_id reqTenant) = None"
    unfolding findFirst_None_iff .
  then have again: "softDeleteMaterial reqTenant mid later s' =
          (Inl (NotFound ''Material not found or already deleted.''), s')"
    by (simp add: softDeleteMaterial_def)
  from r ms stocks rest again show ?thesis by (simp add: Let_def s'_def)
qed

theorem softDeleteMaterial_frame_witness:
  "materials (snd (softDeleteMaterial acme ''M'' 5 stocked)) =
     [\<lparr>material_id = ''M'', material_tenantId = ''T'', name = ''steel'', unit = ''kg'',
       currentStock = 100, deletedAt = Some 5\<rparr>] \<and>
   transactions (snd (softDeleteMaterial acme ''M'' 5 stocked)) = transactions stocked \<and>
   softDeleteMaterial acme ''M'' 9 (snd (softDeleteMaterial acme ''M'' 5 stocked)) =
     (Inl (NotFound ''Material not found or already deleted.''),
      snd (softDeleteMaterial acme ''M'' 5 stocked))"
proof -
  have found: "material_findFirst stocked ''M'' (tenant_id acme) =
      Some \<lparr>material_id = ''M'', material_tenantId = ''T'', name = ''steel'',
             unit = ''kg'', currentStock = 100, deletedAt = None\<rparr>"
    by (simp add: stocked_findFirst acme_def)
  have rows: "materials stocked =
     [\<lparr>material_id = ''M'', material_tenantId = ''T'', name = ''steel'', unit = ''kg'',
       currentStock = 100, deletedAt = None\<rparr>]"
    by (simp add: stocked_eq)
  from softDeleteMaterial_frame [OF found, of 5 9] rows show ?thesis by (simp add: Let_def)
qed

text \<open>
  C9. An OUT movement of exactly the stock read succeeds: the check is a strict less-than.
  The stock becomes 0 and the appended row records the old stock.
\<close>

theorem createTransaction_out_of_whole_stock:
  assumes "createTransactionSchema body = Some (OUT, Finite q)"
    and "material_findFirst s mid (tenant_id reqTenant) = Some m"
    and "q = currentStock m"
  shows
    "fst (createTransaction reqTenant mid body s) =
       Inr (TransactionCreated mid 0
              \<lparr>transaction_tenantId = tenant_id reqTenant, materialId = mid, type = OUT,
               quantity = q, preTransactionStock = currentStock m\<rparr>) \<and>
     material_findFirst (snd (createTransaction reqTenant mid body s)) mid (tenant_id reqTenant) =
       Some (m\<lparr>currentStock := 0\<rparr>) \<and>
     transactions (snd (createTransaction reqTenant mid body s)) =
       transactions s @
         [\<lparr>transaction_tenantId = tenant_id reqTenant, materialId = mid, type = OUT,
           quantity = q, preTransactionStock = currentStock m\<rparr>]"
proof -
  from assms(3) have ok: "OUT = OUT \<longrightarrow> q \<le> currentStock m" by simp
  from assms(3) have zero: "roundToDouble (case OUT of IN \<Rightarrow> currentStock m + q
      | OUT \<Rightarrow> currentStock m - q) = Finite 0" by simp
  note acc = createTransaction_accepted [OF assms(1,2) ok zero]
  have ms: "materials (snd (createTransaction reqTenant mid body s)) =
      map (\<lambda>x. if material_id x = mid then x\<lparr>currentStock := 0\<rparr> else x) (materials s)"
    by (simp add: acc)
  note ff = findFirst_after_stock_update [OF assms(2) ms]
  from ff show ?thesis by (simp add: acc)
qed

theorem createTransaction_out_of_whole_stock_witness:
  "fst (createTransaction acme ''M'' (movement ''OUT'' 100) stocked) =
     Inr (TransactionCreated ''M'' 0
            \<lparr>transaction_tenantId = ''T'', materialId = ''M'', type = OUT, quantity = 100,
             preTransactionStock = 100\<rparr>) \<and>
   material_findFirst (snd (createTransaction acme ''M'' (movement ''OUT'' 100) stocked)) ''M'' ''T'' =
     Some \<lparr>material_id = ''M'', material_tenantId = ''T'', name = ''steel'', unit = ''kg'',
           currentStock = 0, deletedAt = None\<rparr>"
proof -
  have schema: "createTransactionSchema (movement ''OUT'' 100) = Some (OUT, Finite 100)"
    by (rule movement_schema) simp_all
  have found: "material_findFirst stocked ''M'' (tenant_id acme) =
      Some \<lparr>material_id = ''M'', material_tenantId = ''T'', name = ''steel'',
             unit = ''kg'', currentStock = 100, deletedAt = None\<rparr>"
    by (simp add: stocked_findFirst acme_def)
  have whole: "(100::rat) = currentStock \<lparr>material_id = ''M'', material_tenantId = ''T'',
      name = ''steel'', unit = ''kg'', currentStock = 100, deletedAt = None\<rparr>" by simp
  from createTransaction_out_of_whole_stock [OF schema found whole]
  show ?thesis by (simp add: acme_def)
qed



end
